theory Spec2Isabelle
  imports
    Complex_Main
    "HOL-Library.List_Lexorder"
    "HOL-Library.Char_ord"
    "HOL-Library.Product_Lexorder"
    "HOL-Library.Multiset"
begin

section \<open>Data model\<close>

text \<open>
  The dashboard (\<^verbatim>\<open>src/dashboard.py\<close>) works on one pandas table read from
  \<^verbatim>\<open>marketing_data.csv\<close>. A row of that table is a record; a DataFrame is the list
  of its rows in index order. Money and ratio columns are float64 in the program and
  real numbers here. Where a statement is about which formula the program applies, the
  formula is in exact arithmetic; where a yes or no depends on the rounding (the sign
  of the simulated net impact, the comparisons of the anomaly detector), every
  operation is rounded to binary64 by \<open>b64\<close> below. The two places where float64 is
  more than a number (the NaN of a rolling window that is not full yet, and a division
  by zero) are written out as \<open>None\<close> and as the type \<open>pd_float\<close>.

  The count columns are int64 in the program: a count is an integer from \<open>- 2^63\<close> up to
  \<open>2^63 - 1\<close>, and a sum of counts wraps around modulo \<open>2^64\<close> (\<open>int64_sum\<close> below).

  A \<^verbatim>\<open>created_date\<close> is a day-granular Timestamp: the proleptic Gregorian ordinal
  of the day, so that subtracting two dates gives the number of days between them.
\<close>

record campaign =
  created_date :: int
  client_name :: string
  industry :: string
  campaign_objective :: string
  amount_spent :: real
  purchase_value :: real
  roas :: real
  cpc :: real
  ctr_percentage :: real
  impressions :: int
  clicks :: int
  add_to_cart :: int
  purchase :: int
  is_weekend :: bool
  is_ramadhan :: bool

type_synonym dataframe = "campaign list"

subsection \<open>Calendar dates\<close>

text \<open>
  Concrete dates such as 2023-03-01 are read through the ordinal of Python's
  \<^verbatim>\<open>datetime\<close> (day 1 is 0001-01-01), and \<^verbatim>\<open>dt.to_period('M')\<close> keeps the
  year and the month of an ordinal.
\<close>

definition is_leap :: "int \<Rightarrow> bool" where
  "is_leap y = (y mod 4 = 0 \<and> (y mod 400 = 0 \<or> y mod 100 \<noteq> 0))"

definition days_before_year :: "int \<Rightarrow> int" where
  "days_before_year y = (y - 1) * 365 + (y - 1) div 4 - (y - 1) div 100 + (y - 1) div 400"

definition days_in_month :: "int \<Rightarrow> int \<Rightarrow> int" where
  "days_in_month y m =
     (if m = 2 then (if is_leap y then 29 else 28)
      else if m = 4 \<or> m = 6 \<or> m = 9 \<or> m = 11 then 30 else 31)"

definition days_before_month :: "int \<Rightarrow> int \<Rightarrow> int" where
  "days_before_month y m = sum_list (map (days_in_month y) [1..m - 1])"

definition ymd2ord :: "int \<Rightarrow> int \<Rightarrow> int \<Rightarrow> int" where
  "ymd2ord y m d = days_before_year y + days_before_month y m + d"

definition ord2ym :: "int \<Rightarrow> int \<times> int" where
  "ord2ym n0 =
     (let n = n0 - 1;
          n400 = n div 146097; n = n mod 146097;
          n100 = n div 36524; n = n mod 36524;
          n4 = n div 1461; n = n mod 1461;
          n1 = n div 365; n = n mod 365;
          year = n400 * 400 + 1 + n100 * 100 + n4 * 4 + n1
      in if n1 = 4 \<or> n100 = 4 then (year - 1, 12)
         else
           let leapyear = (n1 = 3 \<and> (n4 \<noteq> 24 \<or> n100 = 3));
               month = (n + 50) div 32;
               preceding = days_before_month (if leapyear then 4 else 1) month
           in if preceding > n then (year, month - 1) else (year, month))"

definition to_period_M :: "campaign \<Rightarrow> int \<times> int" where
  "to_period_M r = ord2ym (created_date r)"

section \<open>Filter engine\<close>

text \<open>
  Lines 103-108: the current view keeps the rows of the selected clients and objectives
  whose date lies in the selected range, both ends included.
\<close>

definition mask_row :: "string list \<Rightarrow> string list \<Rightarrow> int \<Rightarrow> int \<Rightarrow> campaign \<Rightarrow> bool" where
  "mask_row selected_clients selected_objectives start_date end_date r =
     (client_name r \<in> set selected_clients \<and>
      campaign_objective r \<in> set selected_objectives \<and>
      created_date r \<ge> start_date \<and>
      created_date r \<le> end_date)"

definition filtered_df :: "dataframe \<Rightarrow> string list \<Rightarrow> string list \<Rightarrow> int \<Rightarrow> int \<Rightarrow> dataframe" where
  "filtered_df df selected_clients selected_objectives start_date end_date =
     filter (mask_row selected_clients selected_objectives start_date end_date) df"

text \<open>Lines 127-142: the previous period and its view.\<close>

definition delta_days :: "int \<Rightarrow> int \<Rightarrow> int" where
  "delta_days start_date end_date = end_date - start_date"

definition prev_end :: "int \<Rightarrow> int" where
  "prev_end start_date = start_date - 1"

definition prev_start :: "int \<Rightarrow> int \<Rightarrow> int" where
  "prev_start start_date end_date = prev_end start_date - delta_days start_date end_date"

definition mask_prev :: "string list \<Rightarrow> string list \<Rightarrow> int \<Rightarrow> int \<Rightarrow> campaign \<Rightarrow> bool" where
  "mask_prev selected_clients selected_objectives start_date end_date r =
     (client_name r \<in> set selected_clients \<and>
      campaign_objective r \<in> set selected_objectives \<and>
      created_date r \<ge> prev_start start_date end_date \<and>
      created_date r \<le> prev_end start_date)"

definition prev_filtered_df :: "dataframe \<Rightarrow> string list \<Rightarrow> string list \<Rightarrow> int \<Rightarrow> int \<Rightarrow> dataframe" where
  "prev_filtered_df df selected_clients selected_objectives start_date end_date =
     filter (mask_prev selected_clients selected_objectives start_date end_date) df"

section \<open>Machine numbers\<close>

subsection \<open>64-bit counts\<close>

text \<open>
  \<^verbatim>\<open>Series.sum()\<close> of an int64 column adds in int64: the result is the exact sum
  brought back into the range from \<open>- 2^63\<close> to \<open>2^63 - 1\<close> modulo \<open>2^64\<close>.
\<close>

definition in_int64 :: "int \<Rightarrow> bool" where
  "in_int64 n = (- (2 ^ 63) \<le> n \<and> n < 2 ^ 63)"

definition int64_wrap :: "int \<Rightarrow> int" where
  "int64_wrap n = (n + 2 ^ 63) mod 2 ^ 64 - 2 ^ 63"

definition int64_sum :: "int list \<Rightarrow> int" where
  "int64_sum ns = int64_wrap (sum_list ns)"

subsection \<open>Binary64 rounding\<close>

text \<open>
  An arithmetic operation on float64 values returns the exact result rounded to the
  nearest binary64 number, a tie going to the even significand. \<open>b64\<close> is that
  rounding: a nonzero magnitude \<open>a\<close> is rounded to a multiple of the spacing of its
  binade, \<open>2^(e - 52)\<close> for \<open>2^e \<le> a < 2^(e + 1)\<close>, and of the fixed spacing \<open>2^(- 1074)\<close>
  below \<open>2^(- 1022)\<close>. The program's result is this number as long as its magnitude stays
  below \<open>2^1024\<close> (\<open>finite64\<close>); beyond that the program has an infinity.
\<close>

definition rne :: "real \<Rightarrow> int" where
  "rne a =
     (let f = \<lfloor>a\<rfloor>; d = a - of_int f
      in if d < 1 / 2 then f else if 1 / 2 < d then f + 1 else if even f then f else f + 1)"

definition b64_binade :: "real \<Rightarrow> int" where
  "b64_binade a = max \<lfloor>log 2 a\<rfloor> (- 1022)"

definition b64_quantum :: "real \<Rightarrow> real" where
  "b64_quantum a = 2 powi (b64_binade a - 52)"

definition b64_mag :: "real \<Rightarrow> real" where
  "b64_mag a = of_int (rne (a / b64_quantum a)) * b64_quantum a"

definition b64 :: "real \<Rightarrow> real" where
  "b64 x = (if x = 0 then 0 else if 0 < x then b64_mag x else - b64_mag (- x))"

definition finite64 :: "real \<Rightarrow> bool" where
  "finite64 x = (\<bar>x\<bar> < 2 ^ 1024)"

section \<open>Metrics engine\<close>

text \<open>
  \<^verbatim>\<open>Series.mean()\<close> is the sum over the count; over an empty Series it is NaN,
  which is \<open>None\<close> here.
\<close>

definition series_mean :: "real list \<Rightarrow> real" where
  "series_mean xs = sum_list xs / real (length xs)"

definition pd_mean :: "real list \<Rightarrow> real option" where
  "pd_mean xs = (if xs = [] then None else Some (series_mean xs))"

text \<open>Lines 157-161: the headline cards of the current view.\<close>

definition curr_spend :: "dataframe \<Rightarrow> real" where
  "curr_spend fd = sum_list (map amount_spent fd)"

definition curr_purchase :: "dataframe \<Rightarrow> real" where
  "curr_purchase fd = sum_list (map purchase_value fd)"

definition curr_roas :: "dataframe \<Rightarrow> real option" where
  "curr_roas fd = pd_mean (map roas fd)"

definition curr_cpc :: "dataframe \<Rightarrow> real option" where
  "curr_cpc fd = pd_mean (map cpc fd)"

definition curr_ctr :: "dataframe \<Rightarrow> real option" where
  "curr_ctr fd = pd_mean (map ctr_percentage fd)"

text \<open>Lines 164-168: the same figures of the previous view, 0 when that view is empty.\<close>

definition prev_spend :: "dataframe \<Rightarrow> real" where
  "prev_spend pfd = sum_list (map amount_spent pfd)"

definition prev_purchase :: "dataframe \<Rightarrow> real" where
  "prev_purchase pfd = sum_list (map purchase_value pfd)"

definition prev_roas :: "dataframe \<Rightarrow> real" where
  "prev_roas pfd = (if pfd \<noteq> [] then series_mean (map roas pfd) else 0)"

definition prev_cpc :: "dataframe \<Rightarrow> real" where
  "prev_cpc pfd = (if pfd \<noteq> [] then series_mean (map cpc pfd) else 0)"

definition prev_ctr :: "dataframe \<Rightarrow> real" where
  "prev_ctr pfd = (if pfd \<noteq> [] then series_mean (map ctr_percentage pfd) else 0)"

text \<open>
  Lines 145-154: \<^verbatim>\<open>calculate_delta\<close> returns Python's \<^verbatim>\<open>None\<close> or a label.
  A label is kept as the number the f-string formats and the family it belongs to:
  \<open>PtsDelta d\<close> is \<^verbatim>\<open>f"{d:.2f}% (pts)"\<close> and \<open>PctDelta p\<close> is
  \<^verbatim>\<open>f"{p:+.1f}% vs Prev"\<close>.
\<close>

datatype delta_label = PtsDelta real | PctDelta real

fun delta_number :: "delta_label \<Rightarrow> real" where
  "delta_number (PtsDelta d) = d"
| "delta_number (PctDelta p) = p"

definition calculate_delta :: "real \<Rightarrow> real \<Rightarrow> bool \<Rightarrow> delta_label option" where
  "calculate_delta current_val prev_val is_percentage =
     (if prev_val = 0 then None
      else
        let diff = current_val - prev_val;
            percent_change = (diff / prev_val) * 100
        in if is_percentage then Some (PtsDelta diff) else Some (PctDelta percent_change))"

text \<open>
  Lines 181-207: the five deltas shown on the cards. The script stops at line 112 when
  the current view is empty, so the cards exist for a non-empty view only.
\<close>

record card_deltas =
  delta_spend :: "delta_label option"
  delta_purchase :: "delta_label option"
  delta_roas :: "delta_label option"
  delta_cpc :: "delta_label option"
  delta_ctr :: "delta_label option"

definition metric_deltas :: "dataframe \<Rightarrow> dataframe \<Rightarrow> card_deltas option" where
  "metric_deltas fd pfd =
     (if fd = [] then None
      else Some \<lparr>
        delta_spend = calculate_delta (curr_spend fd) (prev_spend pfd) False,
        delta_purchase = calculate_delta (curr_purchase fd) (prev_purchase pfd) False,
        delta_roas = calculate_delta (series_mean (map roas fd)) (prev_roas pfd) False,
        delta_cpc = calculate_delta (series_mean (map cpc fd)) (prev_cpc pfd) False,
        delta_ctr = calculate_delta (series_mean (map ctr_percentage fd)) (prev_ctr pfd) True \<rparr>)"

text \<open>Lines 357-366: the blended figures of the Performance section.\<close>

definition total_clicks_metric :: "dataframe \<Rightarrow> int" where
  "total_clicks_metric fd = int64_sum (map clicks fd)"

definition total_impressions_metric :: "dataframe \<Rightarrow> int" where
  "total_impressions_metric fd = int64_sum (map impressions fd)"

definition overall_ctr :: "dataframe \<Rightarrow> real" where
  "overall_ctr fd =
     (if total_impressions_metric fd > 0
      then real_of_int (total_clicks_metric fd) / real_of_int (total_impressions_metric fd) * 100
      else 0)"

definition total_omzet_metric :: "dataframe \<Rightarrow> real" where
  "total_omzet_metric fd = sum_list (map purchase_value fd)"

definition total_spend_metric :: "dataframe \<Rightarrow> real" where
  "total_spend_metric fd = sum_list (map amount_spent fd)"

definition overall_roas_metric :: "dataframe \<Rightarrow> real" where
  "overall_roas_metric fd =
     (if total_spend_metric fd > 0 then total_omzet_metric fd / total_spend_metric fd else 0)"

section \<open>Reallocation simulator\<close>

text \<open>
  Lines 1039-1059, as a function of the numbers the script reads from the selected rows
  and from the view: the source client's spend and ROAS, the target client's ROAS, the
  slider's integer percentage, the view's revenue and the view's spend.
\<close>

record simulation =
  transfer_amount :: real
  rev_lost :: real
  rev_gained :: real
  net_revenue_impact :: real
  new_total_rev :: real
  old_global_roas :: real
  new_global_roas :: real

definition simulate :: "real \<Rightarrow> real \<Rightarrow> real \<Rightarrow> int \<Rightarrow> real \<Rightarrow> real \<Rightarrow> simulation" where
  "simulate source_spend source_roas target_roas transfer_pct current_total_rev total_spend_global =
     (let transfer_amount = source_spend * (real_of_int transfer_pct / 100);
          rev_lost = transfer_amount * source_roas;
          rev_gained = transfer_amount * target_roas;
          net_revenue_impact = rev_gained - rev_lost;
          new_total_rev = current_total_rev + net_revenue_impact
      in \<lparr> transfer_amount = transfer_amount,
           rev_lost = rev_lost,
           rev_gained = rev_gained,
           net_revenue_impact = net_revenue_impact,
           new_total_rev = new_total_rev,
           old_global_roas =
             (if total_spend_global > 0 then current_total_rev / total_spend_global else 0),
           new_global_roas =
             (if total_spend_global > 0 then new_total_rev / total_spend_global else 0) \<rparr>)"

text \<open>
  The same lines with every operation rounded by \<open>fl\<close>. With the identity for \<open>fl\<close>
  this is \<open>simulate\<close>, the formulas in exact arithmetic; with \<open>b64\<close> it is what the
  program computes on float64 arguments, as long as no result overflows
  (\<open>simulation_finite\<close>). \<^verbatim>\<open>transfer_pct / 100\<close> divides two Python integers, which
  also gives the quotient rounded to binary64.
\<close>

definition simulate_rounded ::
  "(real \<Rightarrow> real) \<Rightarrow> real \<Rightarrow> real \<Rightarrow> real \<Rightarrow> int \<Rightarrow> real \<Rightarrow> real \<Rightarrow> simulation" where
  "simulate_rounded fl source_spend source_roas target_roas transfer_pct current_total_rev
       total_spend_global =
     (let transfer_amount = fl (source_spend * fl (real_of_int transfer_pct / 100));
          rev_lost = fl (transfer_amount * source_roas);
          rev_gained = fl (transfer_amount * target_roas);
          net_revenue_impact = fl (rev_gained - rev_lost);
          new_total_rev = fl (current_total_rev + net_revenue_impact)
      in \<lparr> transfer_amount = transfer_amount,
           rev_lost = rev_lost,
           rev_gained = rev_gained,
           net_revenue_impact = net_revenue_impact,
           new_total_rev = new_total_rev,
           old_global_roas =
             (if total_spend_global > 0 then fl (current_total_rev / total_spend_global) else 0),
           new_global_roas =
             (if total_spend_global > 0 then fl (new_total_rev / total_spend_global) else 0) \<rparr>)"

definition simulate_f64 :: "real \<Rightarrow> real \<Rightarrow> real \<Rightarrow> int \<Rightarrow> real \<Rightarrow> real \<Rightarrow> simulation" where
  "simulate_f64 = simulate_rounded b64"

definition simulation_finite :: "simulation \<Rightarrow> bool" where
  "simulation_finite s =
     (finite64 (transfer_amount s) \<and> finite64 (rev_lost s) \<and> finite64 (rev_gained s) \<and>
      finite64 (net_revenue_impact s) \<and> finite64 (new_total_rev s) \<and>
      finite64 (old_global_roas s) \<and> finite64 (new_global_roas s))"

text \<open>
  The binary64 number nearest to 3/7, which is what \<^verbatim>\<open>3 / 7\<close> evaluates to, and the
  next binary64 number above it.
\<close>

definition roas_3_7 :: real where
  "roas_3_7 = 7720456504063707 / 18014398509481984"

definition roas_3_7_next :: real where
  "roas_3_7_next = 7720456504063708 / 18014398509481984"

section \<open>Aggregation engine\<close>

text \<open>
  \<^verbatim>\<open>df.groupby(key)\<close> makes one group per distinct key and emits the groups in
  ascending key order (pandas sorts group keys by default); an aggregation then reduces
  each column over the rows of a group.
\<close>

definition groupby_keys :: "('r \<Rightarrow> 'k::linorder) \<Rightarrow> 'r list \<Rightarrow> 'k list" where
  "groupby_keys key df = sort (remdups (map key df))"

definition group_rows :: "('r \<Rightarrow> 'k) \<Rightarrow> 'r list \<Rightarrow> 'k \<Rightarrow> 'r list" where
  "group_rows key df k = filter (\<lambda>r. key r = k) df"

text \<open>
  Lines 493-494, 686-687 and 882-883: the sums of revenue and spend per group, and a
  \<^verbatim>\<open>roas\<close> column recomputed from them under \<^verbatim>\<open>np.where(amount_spent > 0, ..., 0)\<close>.
\<close>

record 'k agg_row =
  group_key :: 'k
  agg_purchase_value :: real
  agg_amount_spent :: real
  agg_roas :: real

definition groupby_sum_roas :: "(campaign \<Rightarrow> 'k::linorder) \<Rightarrow> dataframe \<Rightarrow> 'k agg_row list" where
  "groupby_sum_roas key fd =
     map (\<lambda>k.
        let g = group_rows key fd k;
            pv = sum_list (map purchase_value g);
            sp = sum_list (map amount_spent g)
        in \<lparr> group_key = k, agg_purchase_value = pv, agg_amount_spent = sp,
             agg_roas = (if sp > 0 then pv / sp else 0) \<rparr>)
       (groupby_keys key fd)"

definition monthly_trend :: "dataframe \<Rightarrow> (int \<times> int) agg_row list" where
  "monthly_trend fd = groupby_sum_roas to_period_M fd"

definition client_perf :: "dataframe \<Rightarrow> (string \<times> string) agg_row list" where
  "client_perf fd = groupby_sum_roas (\<lambda>r. (client_name r, industry r)) fd"

definition client_matrix :: "dataframe \<Rightarrow> string agg_row list" where
  "client_matrix fd = groupby_sum_roas client_name fd"

text \<open>Lines 675-679: per industry, the sum and the mean of revenue and of spend, and the ROAS.\<close>

record industry_row =
  ind_industry :: string
  total_revenue :: real
  avg_daily_revenue :: real
  total_spend :: real
  avg_daily_spend :: real
  ind_roas :: real

definition industry_perf :: "dataframe \<Rightarrow> industry_row list" where
  "industry_perf fd =
     map (\<lambda>k.
        let g = group_rows industry fd k;
            rev_sum = sum_list (map purchase_value g);
            spend_sum = sum_list (map amount_spent g)
        in \<lparr> ind_industry = k,
             total_revenue = rev_sum,
             avg_daily_revenue = series_mean (map purchase_value g),
             total_spend = spend_sum,
             avg_daily_spend = series_mean (map amount_spent g),
             ind_roas = (if spend_sum > 0 then rev_sum / spend_sum else 0) \<rparr>)
       (groupby_keys industry fd)"

text \<open>
  Line 318 (and line 243): per campaign objective, the mean of the per-record
  \<^verbatim>\<open>roas\<close> column, charted as "Average ROAS by Campaign Objective".
\<close>

definition roas_by_obj :: "dataframe \<Rightarrow> (string \<times> real) list" where
  "roas_by_obj fd =
     map (\<lambda>k. (k, series_mean (map roas (group_rows campaign_objective fd k))))
       (groupby_keys campaign_objective fd)"

subsection \<open>Division of pandas columns\<close>

text \<open>
  Dividing one float64 column by another never raises: a zero divisor gives an
  infinity, or NaN for 0 / 0, and both carry through a multiplication by a positive
  constant. \<open>Finite\<close> holds every other quotient.
\<close>

datatype pd_float = Finite real | PosInf | NegInf | NaN

definition pd_truediv :: "real \<Rightarrow> real \<Rightarrow> pd_float" where
  "pd_truediv a b =
     (if b \<noteq> 0 then Finite (a / b)
      else if a > 0 then PosInf else if a < 0 then NegInf else NaN)"

fun pd_times_100 :: "pd_float \<Rightarrow> pd_float" where
  "pd_times_100 (Finite x) = Finite (x * 100)"
| "pd_times_100 PosInf = PosInf"
| "pd_times_100 NegInf = NegInf"
| "pd_times_100 NaN = NaN"

text \<open>Lines 385-386: clicks and impressions per objective, and their ratio times 100.\<close>

record ctr_row =
  ctr_objective :: string
  ctr_clicks :: int
  ctr_impressions :: int
  ctr :: pd_float

definition ctr_by_obj :: "dataframe \<Rightarrow> ctr_row list" where
  "ctr_by_obj fd =
     map (\<lambda>k.
        let g = group_rows campaign_objective fd k;
            c = int64_sum (map clicks g);
            i = int64_sum (map impressions g)
        in \<lparr> ctr_objective = k, ctr_clicks = c, ctr_impressions = i,
             ctr = pd_times_100 (pd_truediv (real_of_int c) (real_of_int i)) \<rparr>)
       (groupby_keys campaign_objective fd)"

text \<open>
  Lines 1182-1184, the "Client Performance" sheet of \<^verbatim>\<open>generate_excel\<close>: spend and
  revenue summed per client and \<^verbatim>\<open>roas = purchase_value / amount_spent\<close>.
\<close>

record export_row =
  xl_client_name :: string
  xl_amount_spent :: real
  xl_purchase_value :: real
  xl_roas :: pd_float

definition client_agg :: "dataframe \<Rightarrow> export_row list" where
  "client_agg df_source =
     map (\<lambda>k.
        let g = group_rows client_name df_source k;
            sp = sum_list (map amount_spent g);
            pv = sum_list (map purchase_value g)
        in \<lparr> xl_client_name = k, xl_amount_spent = sp, xl_purchase_value = pv,
             xl_roas = pd_truediv pv sp \<rparr>)
       (groupby_keys client_name df_source)"

section \<open>Anomaly detector\<close>

text \<open>
  Lines 262-276 (and again 580-589). The daily table sums spend and revenue per date.
\<close>

record daily_row =
  day :: int
  day_amount_spent :: real
  day_purchase_value :: real

definition daily_trend :: "dataframe \<Rightarrow> daily_row list" where
  "daily_trend fd =
     map (\<lambda>k.
        let g = group_rows created_date fd k
        in \<lparr> day = k, day_amount_spent = sum_list (map amount_spent g),
             day_purchase_value = sum_list (map purchase_value g) \<rparr>)
       (groupby_keys created_date fd)"

text \<open>
  \<^verbatim>\<open>rolling(window=7).mean()\<close> and \<^verbatim>\<open>rolling(window=7).std()\<close> are computed by
  pandas, with an online float64 algorithm that is not part of the program. In the
  detector they are the parameters \<open>rolling_mean\<close> and \<open>rolling_std\<close>: the value pandas
  has at row \<open>i\<close> of the series, \<open>None\<close> for NaN. The program then forms the two edges of
  the band in float64 (twice the deviation, added to and subtracted from the mean)
  and compares strictly; a comparison with NaN is false.
\<close>

type_synonym rolling_kernel = "real list \<Rightarrow> nat \<Rightarrow> real option"

definition is_anomaly :: "rolling_kernel \<Rightarrow> rolling_kernel \<Rightarrow> real list \<Rightarrow> nat \<Rightarrow> bool" where
  "is_anomaly rolling_mean rolling_std xs i =
     (case (rolling_mean xs i, rolling_std xs i) of
        (Some m, Some s) \<Rightarrow> xs ! i > b64 (m + b64 (2 * s)) \<or> xs ! i < b64 (m - b64 (2 * s))
      | _ \<Rightarrow> False)"

definition anomaly_index :: "rolling_kernel \<Rightarrow> rolling_kernel \<Rightarrow> real list \<Rightarrow> nat list" where
  "anomaly_index rolling_mean rolling_std xs =
     (if length xs > 7 then filter (is_anomaly rolling_mean rolling_std xs) [0..<length xs]
      else [])"

definition anomalies :: "rolling_kernel \<Rightarrow> rolling_kernel \<Rightarrow> dataframe \<Rightarrow> daily_row list" where
  "anomalies rolling_mean rolling_std fd =
     (let dt = daily_trend fd
      in map (\<lambda>i. dt ! i) (anomaly_index rolling_mean rolling_std (map day_purchase_value dt)))"

subsection \<open>What pandas promises of the rolling columns\<close>

text \<open>
  The textbook figures of the 7 points that end at index \<open>i\<close>, the point itself
  included: their mean, and their sample standard deviation (divisor 7 - 1, pandas'
  default \<^verbatim>\<open>ddof=1\<close>).
\<close>

definition trailing_mean :: "real list \<Rightarrow> nat \<Rightarrow> real" where
  "trailing_mean xs i = (\<Sum>j = i - 6..i. xs ! j) / 7"

definition trailing_sample_std :: "real list \<Rightarrow> nat \<Rightarrow> real" where
  "trailing_sample_std xs i = sqrt ((\<Sum>j = i - 6..i. (xs ! j - trailing_mean xs i)\<^sup>2) / 6)"

text \<open>
  \<open>pandas_rolling\<close> is what the rolling columns are known to satisfy whatever the
  rounding inside pandas: both are NaN on the first 6 rows (\<^verbatim>\<open>min_periods\<close> is the
  window), a deviation is never negative, and over 7 equal values the mean is that
  value and the deviation is 0 (pandas returns them as such for a window of one
  repeated value). \<open>rolling_within tol xs\<close> says how close the columns of the series
  \<open>xs\<close> are to the textbook figures of the trailing window.
\<close>

definition pandas_rolling :: "rolling_kernel \<Rightarrow> rolling_kernel \<Rightarrow> bool" where
  "pandas_rolling rolling_mean rolling_std =
     (\<forall>xs i.
        (i < 6 \<longrightarrow> rolling_mean xs i = None \<and> rolling_std xs i = None) \<and>
        (\<forall>s. rolling_std xs i = Some s \<longrightarrow> 0 \<le> s) \<and>
        (\<forall>c. 6 \<le> i \<and> i < length xs \<and> (\<forall>j. i - 6 \<le> j \<and> j \<le> i \<longrightarrow> xs ! j = c) \<longrightarrow>
           rolling_mean xs i = Some c \<and> rolling_std xs i = Some 0))"

definition rolling_within :: "rolling_kernel \<Rightarrow> rolling_kernel \<Rightarrow> real \<Rightarrow> real list \<Rightarrow> bool" where
  "rolling_within rolling_mean rolling_std tol xs =
     (\<forall>i. 6 \<le> i \<and> i < length xs \<longrightarrow>
        (\<exists>m s. rolling_mean xs i = Some m \<and> rolling_std xs i = Some s \<and>
           \<bar>m - trailing_mean xs i\<bar> \<le> tol \<and> \<bar>s - trailing_sample_std xs i\<bar> \<le> tol))"

text \<open>
  The rolling columns in exact arithmetic. They are not what pandas computes, which
  differs in the last digits, but they meet \<open>pandas_rolling\<close> and are within 0 of the
  textbook figures.
\<close>

definition rolling_window :: "nat \<Rightarrow> real list \<Rightarrow> nat \<Rightarrow> real list option" where
  "rolling_window window xs i =
     (if i + 1 < window then None else Some (take window (drop (i + 1 - window) xs)))"

definition exact_std :: "real list \<Rightarrow> real option" where
  "exact_std w =
     (if length w \<le> 1 then None
      else Some (sqrt (sum_list (map (\<lambda>x. (x - series_mean w)\<^sup>2) w) / (real (length w) - 1))))"

definition exact_rolling_mean :: rolling_kernel where
  "exact_rolling_mean xs i = Option.bind (rolling_window 7 xs i) pd_mean"

definition exact_rolling_std :: rolling_kernel where
  "exact_rolling_std xs i = Option.bind (rolling_window 7 xs i) exact_std"

section \<open>Fixtures\<close>

text \<open>
  Rows for concrete evaluations. \<open>fixture_row\<close> fills the derived columns of a row the
  way the data model defines them (\<open>roas\<close> is revenue over spend, \<open>cpc\<close> spend over
  clicks, \<open>ctr_percentage\<close> clicks over impressions times 100, each 0 where the
  denominator is 0).
\<close>

definition fixture_row ::
  "int \<Rightarrow> string \<Rightarrow> string \<Rightarrow> string \<Rightarrow> real \<Rightarrow> real \<Rightarrow> int \<Rightarrow> int \<Rightarrow> campaign" where
  "fixture_row d c i ob spent revenue imps clk =
     \<lparr> created_date = d, client_name = c, industry = i, campaign_objective = ob,
       amount_spent = spent, purchase_value = revenue,
       roas = (if spent = 0 then 0 else revenue / spent),
       cpc = (if clk = 0 then 0 else spent / real_of_int clk),
       ctr_percentage = (if imps = 0 then 0 else real_of_int clk / real_of_int imps * 100),
       impressions = imps, clicks = clk, add_to_cart = 0, purchase = 0,
       is_weekend = False, is_ramadhan = False \<rparr>"

text \<open>
  Two Sales rows of one client on which the mean of the per-row ROAS (2) and the ratio of
  the sums (1000 / 400) differ, as do the mean of the per-row CTR (7 / 2) and the ratio
  of the summed clicks and impressions (8 / 3).
\<close>

definition view_two_sales :: dataframe where
  "view_two_sales =
     [fixture_row (ymd2ord 2023 3 1) ''Client A'' ''Fashion'' ''Sales'' 100 100 1000 10,
      fixture_row (ymd2ord 2023 3 2) ''Client A'' ''Fashion'' ''Sales'' 300 900 500 30]"

text \<open>
  Three clients in two industries; Client C has a day without spend, impressions or
  clicks.
\<close>

definition view_clients :: dataframe where
  "view_clients =
     [fixture_row (ymd2ord 2023 3 1) ''Client A'' ''Fashion'' ''Sales'' 100 100 1000 10,
      fixture_row (ymd2ord 2023 3 2) ''Client A'' ''Fashion'' ''Sales'' 300 900 500 30,
      fixture_row (ymd2ord 2023 4 5) ''Client B'' ''Beauty'' ''Traffic'' 200 0 4000 80,
      fixture_row (ymd2ord 2023 4 6) ''Client C'' ''Beauty'' ''Awareness'' 0 0 0 0]"

text \<open>A single row without spend, impressions or clicks.\<close>

definition view_zero_spend :: dataframe where
  "view_zero_spend =
     [fixture_row (ymd2ord 2023 4 6) ''Client C'' ''Beauty'' ''Awareness'' 0 0 0 0]"

text \<open>Ten days at 100 with one day at 1000, the eighth.\<close>

definition flat_series_with_spike :: "real list" where
  "flat_series_with_spike = replicate 7 100 @ [1000] @ replicate 2 100"

text \<open>A client with revenue on a day without spend.\<close>

definition view_unpaid_revenue :: dataframe where
  "view_unpaid_revenue =
     [fixture_row (ymd2ord 2023 4 7) ''Client D'' ''FMCG'' ''Sales'' 0 500 1000 10]"

text \<open>
  One row a day from 2023-03-01 to 2023-03-10 with a revenue of 100, and of 1000 on
  2023-03-08.
\<close>

definition view_ten_days :: dataframe where
  "view_ten_days =
     [fixture_row (ymd2ord 2023 3 1) ''Client A'' ''Fashion'' ''Sales'' 50 100 1000 10,
      fixture_row (ymd2ord 2023 3 2) ''Client A'' ''Fashion'' ''Sales'' 50 100 1000 10,
      fixture_row (ymd2ord 2023 3 3) ''Client A'' ''Fashion'' ''Sales'' 50 100 1000 10,
      fixture_row (ymd2ord 2023 3 4) ''Client A'' ''Fashion'' ''Sales'' 50 100 1000 10,
      fixture_row (ymd2ord 2023 3 5) ''Client A'' ''Fashion'' ''Sales'' 50 100 1000 10,
      fixture_row (ymd2ord 2023 3 6) ''Client A'' ''Fashion'' ''Sales'' 50 100 1000 10,
      fixture_row (ymd2ord 2023 3 7) ''Client A'' ''Fashion'' ''Sales'' 50 100 1000 10,
      fixture_row (ymd2ord 2023 3 8) ''Client A'' ''Fashion'' ''Sales'' 50 1000 1000 10,
      fixture_row (ymd2ord 2023 3 9) ''Client A'' ''Fashion'' ''Sales'' 50 100 1000 10,
      fixture_row (ymd2ord 2023 3 10) ''Client A'' ''Fashion'' ''Sales'' 50 100 1000 10]"


section \<open>Previous period (C4)\<close>

text \<open>
  C4. For a current range from \<open>start\<close> to \<open>end\<close> with \<open>start \<le> end\<close>, the previous period
  ends the day before \<open>start\<close> and starts \<open>(end - start).days\<close> days before its own end, so
  it spans as many days as the current range and lies wholly before it; the previous
  view is the current view's client and objective predicate applied over that range;
  and the range 2023-03-01 to 2023-03-10 has the previous period 2023-02-19 to 2023-02-28.
\<close>

theorem C4_previous_period:
  assumes "start_date \<le> end_date"
  shows "prev_end start_date = start_date - 1 \<and>
         prev_start start_date end_date = prev_end start_date - (end_date - start_date) \<and>
         prev_end start_date - prev_start start_date end_date = end_date - start_date \<and>
         prev_start start_date end_date \<le> prev_end start_date \<and>
         prev_end start_date < start_date \<and>
         prev_filtered_df df cs os start_date end_date =
           filtered_df df cs os (prev_start start_date end_date) (prev_end start_date) \<and>
         prev_start (ymd2ord 2023 3 1) (ymd2ord 2023 3 10) = ymd2ord 2023 2 19 \<and>
         prev_end (ymd2ord 2023 3 1) = ymd2ord 2023 2 28"
proof -
  have same_predicate: "mask_prev cs os start_date end_date =
        mask_row cs os (prev_start start_date end_date) (prev_end start_date)"
    by (rule ext) (simp add: mask_prev_def mask_row_def)
  have d: "days_before_month 2023 3 = 59" "days_before_month 2023 2 = 31"
    by (simp_all add: days_before_month_def days_in_month_def is_leap_def upto.simps)
  have "prev_start (ymd2ord 2023 3 1) (ymd2ord 2023 3 10) = ymd2ord 2023 2 19"
    by (simp add: prev_start_def prev_end_def delta_days_def ymd2ord_def d)
  moreover have "prev_end (ymd2ord 2023 3 1) = ymd2ord 2023 2 28"
    by (simp add: prev_end_def ymd2ord_def d)
  moreover have "prev_filtered_df df cs os start_date end_date =
           filtered_df df cs os (prev_start start_date end_date) (prev_end start_date)"
    by (simp add: prev_filtered_df_def filtered_df_def same_predicate)
  moreover have "prev_start start_date end_date \<le> prev_end start_date"
    using assms by (simp add: prev_start_def delta_days_def)
  ultimately show ?thesis
    by (simp add: prev_start_def prev_end_def delta_days_def)
qed

text \<open>The previous period at the range of the spec's example, on a concrete table.\<close>

theorem C4_previous_period_witness:
  "ymd2ord 2023 3 1 \<le> ymd2ord 2023 3 10 \<and>
   prev_end (ymd2ord 2023 3 1) = ymd2ord 2023 2 28 \<and>
   prev_start (ymd2ord 2023 3 1) (ymd2ord 2023 3 10) = ymd2ord 2023 2 19 \<and>
   ymd2ord 2023 2 28 - ymd2ord 2023 2 19 = ymd2ord 2023 3 10 - ymd2ord 2023 3 1 \<and>
   prev_filtered_df view_two_sales [''Client A''] [''Sales''] (ymd2ord 2023 3 1) (ymd2ord 2023 3 10) =
     filtered_df view_two_sales [''Client A''] [''Sales''] (ymd2ord 2023 2 19) (ymd2ord 2023 2 28)"
proof -
  have d: "days_before_month 2023 3 = 59"
    by (simp add: days_before_month_def days_in_month_def is_leap_def upto.simps)
  have le: "ymd2ord 2023 3 1 \<le> ymd2ord 2023 3 10"
    by (simp add: ymd2ord_def d)
  note c4 = C4_previous_period [OF le, of view_two_sales "[''Client A'']" "[''Sales'']"]
  from c4 have pe: "prev_end (ymd2ord 2023 3 1) = ymd2ord 2023 2 28"
    by blast
  from c4 have ps: "prev_start (ymd2ord 2023 3 1) (ymd2ord 2023 3 10) = ymd2ord 2023 2 19"
    by blast
  from c4 have span: "prev_end (ymd2ord 2023 3 1) - prev_start (ymd2ord 2023 3 1) (ymd2ord 2023 3 10) =
      ymd2ord 2023 3 10 - ymd2ord 2023 3 1"
    by blast
  from c4 have pf: "prev_filtered_df view_two_sales [''Client A''] [''Sales'']
        (ymd2ord 2023 3 1) (ymd2ord 2023 3 10) =
      filtered_df view_two_sales [''Client A''] [''Sales'']
        (prev_start (ymd2ord 2023 3 1) (ymd2ord 2023 3 10)) (prev_end (ymd2ord 2023 3 1))"
    by blast
  show ?thesis
    using le pe ps span [unfolded pe ps] pf [unfolded pe ps] by blast
qed

section \<open>Headline and blended figures (C2)\<close>

lemma view_two_sales_columns:
  "map roas view_two_sales = [1, 3]"
  "map cpc view_two_sales = [10, 10]"
  "map ctr_percentage view_two_sales = [1, 6]"
  "map amount_spent view_two_sales = [100, 300]"
  "map purchase_value view_two_sales = [100, 900]"
  "map clicks view_two_sales = [10, 30]"
  "map impressions view_two_sales = [1000, 500]"
  "length view_two_sales = 2"
  by (simp_all add: view_two_sales_def fixture_row_def)

lemma int64_wrap_in_range:
  assumes "in_int64 n"
  shows "int64_wrap n = n"
proof -
  have "0 \<le> n + 2 ^ 63" and "n + 2 ^ 63 < 2 ^ 64"
    using assms by (simp_all add: in_int64_def)
  then have "(n + 2 ^ 63) mod 2 ^ 64 = n + 2 ^ 63"
    by (rule mod_pos_pos_trivial)
  then show ?thesis
    by (simp add: int64_wrap_def)
qed

lemma int64_sum_in_range:
  assumes "in_int64 (sum_list ns)"
  shows "int64_sum ns = sum_list ns"
  using int64_wrap_in_range [OF assms] by (simp add: int64_sum_def)

text \<open>
  C2. Over every non-empty view the headline ROAS, CPC and CTR are the arithmetic means
  of the per-record columns, while the separately named blended ROAS of the Performance
  section is the summed revenue over the summed spend and the blended CTR is the summed
  clicks over the summed impressions times 100 (each 0 when its denominator is not
  positive, lines 359 and 366). The sums of clicks and of impressions are the program's
  int64 sums; they are the exact sums whenever those fit in 64 bits. Both conventions
  are produced side by side and are different figures: on the two-row view the headline
  ROAS is 2 and the blended ROAS is 5/2, the headline CTR is 7/2 and the blended CTR is
  8/3.
\<close>

theorem C2_two_conventions:
  assumes "fd \<noteq> []"
  shows "curr_roas fd = Some (sum_list (map roas fd) / real (length fd)) \<and>
         curr_cpc fd = Some (sum_list (map cpc fd) / real (length fd)) \<and>
         curr_ctr fd = Some (sum_list (map ctr_percentage fd) / real (length fd)) \<and>
         (0 < sum_list (map amount_spent fd) \<longrightarrow>
            overall_roas_metric fd =
              sum_list (map purchase_value fd) / sum_list (map amount_spent fd)) \<and>
         (sum_list (map amount_spent fd) \<le> 0 \<longrightarrow> overall_roas_metric fd = 0) \<and>
         (0 < int64_sum (map impressions fd) \<longrightarrow>
            overall_ctr fd =
              real_of_int (int64_sum (map clicks fd)) /
              real_of_int (int64_sum (map impressions fd)) * 100) \<and>
         (int64_sum (map impressions fd) \<le> 0 \<longrightarrow> overall_ctr fd = 0) \<and>
         (in_int64 (sum_list (map clicks fd)) \<and> in_int64 (sum_list (map impressions fd)) \<longrightarrow>
            (0 < sum_list (map impressions fd) \<longrightarrow>
               overall_ctr fd =
                 real_of_int (sum_list (map clicks fd)) /
                 real_of_int (sum_list (map impressions fd)) * 100) \<and>
            (sum_list (map impressions fd) \<le> 0 \<longrightarrow> overall_ctr fd = 0)) \<and>
         curr_roas view_two_sales = Some 2 \<and>
         overall_roas_metric view_two_sales = 5 / 2 \<and>
         curr_ctr view_two_sales = Some (7 / 2) \<and>
         overall_ctr view_two_sales = 8 / 3"
proof -
  have headline: "curr_roas fd = Some (sum_list (map roas fd) / real (length fd))"
    "curr_cpc fd = Some (sum_list (map cpc fd) / real (length fd))"
    "curr_ctr fd = Some (sum_list (map ctr_percentage fd) / real (length fd))"
    using assms by (simp_all add: curr_roas_def curr_cpc_def curr_ctr_def pd_mean_def series_mean_def)
  have blended_roas:
    "0 < sum_list (map amount_spent fd) \<longrightarrow>
       overall_roas_metric fd = sum_list (map purchase_value fd) / sum_list (map amount_spent fd)"
    "sum_list (map amount_spent fd) \<le> 0 \<longrightarrow> overall_roas_metric fd = 0"
    by (simp_all add: overall_roas_metric_def total_spend_metric_def total_omzet_metric_def)
  have blended_ctr:
    "0 < int64_sum (map impressions fd) \<longrightarrow>
       overall_ctr fd = real_of_int (int64_sum (map clicks fd)) /
                        real_of_int (int64_sum (map impressions fd)) * 100"
    "int64_sum (map impressions fd) \<le> 0 \<longrightarrow> overall_ctr fd = 0"
    by (simp_all add: overall_ctr_def total_clicks_metric_def total_impressions_metric_def)
  have exact_ctr:
    "in_int64 (sum_list (map clicks fd)) \<and> in_int64 (sum_list (map impressions fd)) \<longrightarrow>
       (0 < sum_list (map impressions fd) \<longrightarrow>
          overall_ctr fd =
            real_of_int (sum_list (map clicks fd)) /
            real_of_int (sum_list (map impressions fd)) * 100) \<and>
       (sum_list (map impressions fd) \<le> 0 \<longrightarrow> overall_ctr fd = 0)"
    using blended_ctr by (auto simp add: int64_sum_in_range)
  have small: "int64_sum [10, 30] = 40" "int64_sum [1000, 500] = 1500"
    by (simp_all add: int64_sum_def int64_wrap_def)
  have fixture: "curr_roas view_two_sales = Some 2" "overall_roas_metric view_two_sales = 5 / 2"
    "curr_ctr view_two_sales = Some (7 / 2)" "overall_ctr view_two_sales = 8 / 3"
    by (simp_all add: curr_roas_def curr_ctr_def pd_mean_def series_mean_def
        overall_roas_metric_def total_spend_metric_def total_omzet_metric_def
        overall_ctr_def total_clicks_metric_def total_impressions_metric_def
        view_two_sales_columns small)
  show ?thesis
    by (intro conjI headline blended_roas blended_ctr exact_ctr fixture)
qed

theorem C2_two_conventions_witness:
  "view_two_sales \<noteq> [] \<and>
   in_int64 (sum_list (map clicks view_two_sales)) \<and>
   in_int64 (sum_list (map impressions view_two_sales)) \<and>
   curr_roas view_two_sales = Some ((1 + 3) / 2) \<and>
   overall_roas_metric view_two_sales = (100 + 900) / (100 + 300) \<and>
   curr_ctr view_two_sales = Some ((1 + 6) / 2) \<and>
   overall_ctr view_two_sales = real_of_int (10 + 30) / real_of_int (1000 + 500) * 100 \<and>
   curr_roas view_two_sales \<noteq> Some (overall_roas_metric view_two_sales)"
proof -
  have ne: "view_two_sales \<noteq> []"
    by (simp add: view_two_sales_def)
  have fits: "in_int64 (sum_list (map clicks view_two_sales))"
    "in_int64 (sum_list (map impressions view_two_sales))"
    by (simp_all add: view_two_sales_columns in_int64_def)
  note c2 = C2_two_conventions [OF ne]
  have roas: "curr_roas view_two_sales = Some ((1 + 3) / 2)"
    using c2 [THEN conjunct1] by (simp add: view_two_sales_columns)
  have blended: "overall_roas_metric view_two_sales = (100 + 900) / (100 + 300)"
    using c2 by (simp add: view_two_sales_columns)
  have ctr: "curr_ctr view_two_sales = Some ((1 + 6) / 2)"
    using c2 by (simp add: view_two_sales_columns)
  have bctr: "overall_ctr view_two_sales = real_of_int (10 + 30) / real_of_int (1000 + 500) * 100"
    using c2 fits by (simp add: view_two_sales_columns)
  have differ: "curr_roas view_two_sales \<noteq> Some (overall_roas_metric view_two_sales)"
    using roas blended by simp
  show ?thesis
    by (intro conjI ne fits roas blended ctr bctr differ)
qed

section \<open>Period-over-period deltas (C7)\<close>

text \<open>
  C7, as the code has it. \<^verbatim>\<open>calculate_delta\<close> returns \<^verbatim>\<open>None\<close> (no delta) whenever the
  previous value is 0. For a nonzero previous value the plain family
  (\<^verbatim>\<open>is_percentage=False\<close>: spend, revenue, ROAS, CPC) reports the relative change
  \<open>(current - previous) / previous * 100\<close>, and the percentage-point family
  (\<^verbatim>\<open>is_percentage=True\<close>: CTR) reports the difference \<open>current - previous\<close> in points.
  When the previous view is empty, all five deltas of the cards are \<^verbatim>\<open>None\<close>.
\<close>

theorem C7_calculate_delta:
  "(prev_val = 0 \<longrightarrow> calculate_delta current_val prev_val is_percentage = None) \<and>
   (prev_val \<noteq> 0 \<longrightarrow>
      calculate_delta current_val prev_val False =
        Some (PctDelta ((current_val - prev_val) / prev_val * 100)) \<and>
      calculate_delta current_val prev_val True = Some (PtsDelta (current_val - prev_val))) \<and>
   (fd \<noteq> [] \<longrightarrow>
      metric_deltas fd [] =
        Some \<lparr> delta_spend = None, delta_purchase = None, delta_roas = None,
               delta_cpc = None, delta_ctr = None \<rparr>)"
  by (simp add: calculate_delta_def Let_def metric_deltas_def prev_spend_def
      prev_purchase_def prev_roas_def prev_cpc_def prev_ctr_def)

theorem C7_calculate_delta_witness:
  "(2::real) \<noteq> 0 \<and> view_two_sales \<noteq> [] \<and>
   calculate_delta 3 0 False = None \<and>
   calculate_delta 3 2 False = Some (PctDelta 50) \<and>
   calculate_delta 3 2 True = Some (PtsDelta 1) \<and>
   metric_deltas view_two_sales [] =
     Some \<lparr> delta_spend = None, delta_purchase = None, delta_roas = None,
            delta_cpc = None, delta_ctr = None \<rparr>"
proof -
  have ne: "view_two_sales \<noteq> []"
    by (simp add: view_two_sales_def)
  from C7_calculate_delta [of 0 3 False view_two_sales]
       C7_calculate_delta [of 2 3 False view_two_sales] ne
  show ?thesis
    by simp
qed

text \<open>
  The claim as the spec words it gives every delta with a nonzero previous value as the
  relative change. For the percentage-point family that is not what line 152 formats:
  a CTR going from 2 to 3 is reported as 1 point, not as 50 percent.
\<close>

theorem C7_delta_counterexample:
  "map_option delta_number (calculate_delta 3 2 True) \<noteq> Some ((3 - 2) / 2 * 100)"
  by (simp add: calculate_delta_def Let_def)

section \<open>Reallocation simulator (C3)\<close>

text \<open>
  C3. The simulator computes the transfer amount as the source spend times the
  percentage over 100, the revenue lost as the transfer amount times the source ROAS, the
  revenue gained as the transfer amount times the target ROAS, the net impact as gained
  minus lost, and the new global ROAS as the current revenue plus the net impact over the
  global spend, which is the same spend that denominates the old global ROAS (both are
  0 when the global spend is not positive, lines 1058-1059). For a source spend of
  1,000,000, a source ROAS of 0.5, a target ROAS of 2.0 and 50 percent it gives a transfer
  of 500,000, 250,000 lost, 1,000,000 gained and a net impact of 750,000.
\<close>

theorem C3_simulate:
  "transfer_amount (simulate ss sr tr pct gcr gts) = ss * (real_of_int pct / 100) \<and>
   rev_lost (simulate ss sr tr pct gcr gts) = transfer_amount (simulate ss sr tr pct gcr gts) * sr \<and>
   rev_gained (simulate ss sr tr pct gcr gts) = transfer_amount (simulate ss sr tr pct gcr gts) * tr \<and>
   net_revenue_impact (simulate ss sr tr pct gcr gts) =
     rev_gained (simulate ss sr tr pct gcr gts) - rev_lost (simulate ss sr tr pct gcr gts) \<and>
   new_total_rev (simulate ss sr tr pct gcr gts) =
     gcr + net_revenue_impact (simulate ss sr tr pct gcr gts) \<and>
   (0 < gts \<longrightarrow>
      old_global_roas (simulate ss sr tr pct gcr gts) = gcr / gts \<and>
      new_global_roas (simulate ss sr tr pct gcr gts) =
        (gcr + net_revenue_impact (simulate ss sr tr pct gcr gts)) / gts) \<and>
   (gts \<le> 0 \<longrightarrow>
      old_global_roas (simulate ss sr tr pct gcr gts) = 0 \<and>
      new_global_roas (simulate ss sr tr pct gcr gts) = 0) \<and>
   transfer_amount (simulate 1000000 (1 / 2) 2 50 gcr gts) = 500000 \<and>
   rev_lost (simulate 1000000 (1 / 2) 2 50 gcr gts) = 250000 \<and>
   rev_gained (simulate 1000000 (1 / 2) 2 50 gcr gts) = 1000000 \<and>
   net_revenue_impact (simulate 1000000 (1 / 2) 2 50 gcr gts) = 750000"
  by (simp add: simulate_def Let_def)

theorem C3_simulate_witness:
  "(0::real) < 4000000 \<and>
   simulate 1000000 (1 / 2) 2 50 6000000 4000000 =
     \<lparr> transfer_amount = 500000, rev_lost = 250000, rev_gained = 1000000,
       net_revenue_impact = 750000, new_total_rev = 6750000,
       old_global_roas = 3 / 2, new_global_roas = 27 / 16 \<rparr>"
  using C3_simulate [of 1000000 "1 / 2" 2 50 6000000 4000000]
  by (simp add: simulate_def Let_def)

section \<open>Binary64 rounding is monotone and keeps binary64 numbers\<close>

lemma rne_floor_bounds: "\<lfloor>a\<rfloor> \<le> rne a" "rne a \<le> \<lfloor>a\<rfloor> + 1"
  by (simp_all add: rne_def Let_def)

lemma rne_of_int: "rne (of_int n) = n"
  by (simp add: rne_def)

lemma rne_mono:
  assumes "a \<le> b"
  shows "rne a \<le> rne b"
proof (cases "\<lfloor>a\<rfloor> = \<lfloor>b\<rfloor>")
  case True
  have "a - of_int \<lfloor>a\<rfloor> \<le> b - of_int \<lfloor>b\<rfloor>"
    using assms True by simp
  then show ?thesis
    using True by (auto simp add: rne_def Let_def)
next
  case False
  with assms have "\<lfloor>a\<rfloor> < \<lfloor>b\<rfloor>"
    by (simp add: floor_mono order.not_eq_order_implies_strict)
  then have "\<lfloor>a\<rfloor> + 1 \<le> \<lfloor>b\<rfloor>"
    by simp
  with rne_floor_bounds(2) [of a] rne_floor_bounds(1) [of b] show ?thesis
    by linarith
qed

lemma rne_le_int:
  assumes "a \<le> of_int n"
  shows "rne a \<le> n"
  using rne_mono [OF assms] by (simp add: rne_of_int)

lemma rne_ge_int:
  assumes "of_int n \<le> a"
  shows "n \<le> rne a"
  using rne_mono [OF assms] by (simp add: rne_of_int)

lemma powr2_powi: "(2::real) powr real_of_int k = 2 powi k"
  by (simp add: powr_real_of_int')

lemma floor_log2_iff:
  assumes "0 < a"
  shows "\<lfloor>log 2 a\<rfloor> = E \<longleftrightarrow> 2 powi E \<le> a \<and> a < 2 powi (E + 1)"
  using floor_log_eq_powr_iff [of a 2 E] assms by (simp only: powr2_powi)

lemma floor_log2_bounds:
  assumes "0 < a"
  shows "2 powi \<lfloor>log 2 a\<rfloor> \<le> a" and "a < 2 powi (\<lfloor>log 2 a\<rfloor> + 1)"
  using floor_log2_iff [OF assms, of "\<lfloor>log 2 a\<rfloor>"] by simp_all

lemma floor_log2_eq:
  assumes "2 powi E \<le> a" and "a < 2 powi (E + 1)"
  shows "\<lfloor>log 2 a\<rfloor> = E"
proof -
  have "0 < (2::real) powi E"
    by simp
  with assms(1) have pos: "0 < a"
    by linarith
  show ?thesis
    using floor_log2_iff [OF pos, of E] assms by simp
qed

lemma floor_log2_mono:
  assumes "0 < a" and "a \<le> b"
  shows "\<lfloor>log 2 a\<rfloor> \<le> \<lfloor>log 2 b\<rfloor>"
  using assms by (intro floor_mono) simp

lemma b64_quantum_pos: "0 < b64_quantum a"
  by (simp add: b64_quantum_def)

lemma b64_quantum_binade: "b64_quantum a = 2 powi (b64_binade a - 52)"
  by (simp add: b64_quantum_def)

lemma powi2_add: "(2::real) powi (m + n) = 2 powi m * 2 powi n"
  by (simp add: power_int_add)

lemma powi2_split:
  "(2::real) powi (B + 1) = 2 powi 53 * 2 powi (B - 52)"
  "(2::real) powi B = 2 powi 52 * 2 powi (B - 52)"
proof -
  have "53 + (B - 52) = B + 1" and "52 + (B - 52) = B"
    by simp_all
  with powi2_add [of 53 "B - 52"] powi2_add [of 52 "B - 52"]
  show "(2::real) powi (B + 1) = 2 powi 53 * 2 powi (B - 52)"
    and "(2::real) powi B = 2 powi 52 * 2 powi (B - 52)"
    by (simp_all only:)
qed

lemma b64_binade_upper:
  assumes "0 < a"
  shows "a < 2 powi (b64_binade a + 1)"
proof -
  have "\<lfloor>log 2 a\<rfloor> + 1 \<le> b64_binade a + 1"
    by (simp add: b64_binade_def)
  then have "(2::real) powi (\<lfloor>log 2 a\<rfloor> + 1) \<le> 2 powi (b64_binade a + 1)"
    by (intro power_int_increasing) simp_all
  with floor_log2_bounds(2) [OF assms] show ?thesis
    by linarith
qed

lemma b64_mag_upper:
  assumes "0 < a"
  shows "b64_mag a \<le> 2 powi (b64_binade a + 1)"
proof -
  let ?q = "2 powi (b64_binade a - 52) :: real"
  have q: "0 < ?q"
    by simp
  have "a < 2 powi 53 * ?q"
    using b64_binade_upper [OF assms] by (simp only: powi2_split(1))
  then have "a / ?q \<le> 2 powi 53"
    using q by (simp add: pos_divide_le_eq)
  then have "a / ?q \<le> of_int (2 ^ 53)"
    by simp
  then have "rne (a / ?q) \<le> 2 ^ 53"
    by (rule rne_le_int)
  then have "real_of_int (rne (a / ?q)) \<le> 2 powi 53"
    by (metis of_int_le_iff of_int_numeral of_int_power power_int_numeral)
  then have "real_of_int (rne (a / ?q)) * ?q \<le> 2 powi 53 * ?q"
    using q by (simp add: mult_right_mono)
  then show ?thesis
    by (simp only: b64_mag_def b64_quantum_binade powi2_split(1))
qed

lemma b64_mag_lower:
  assumes "0 < a" and "- 1022 \<le> \<lfloor>log 2 a\<rfloor>"
  shows "2 powi b64_binade a \<le> b64_mag a"
proof -
  let ?q = "2 powi (b64_binade a - 52) :: real"
  have q: "0 < ?q"
    by simp
  have B: "b64_binade a = \<lfloor>log 2 a\<rfloor>"
    using assms(2) by (simp add: b64_binade_def)
  have "2 powi 52 * ?q \<le> a"
    using floor_log2_bounds(1) [OF assms(1)] B by (simp only: powi2_split(2) [symmetric])
  then have "2 powi 52 \<le> a / ?q"
    using q by (simp add: pos_le_divide_eq)
  then have "of_int (2 ^ 52) \<le> a / ?q"
    by simp
  then have "2 ^ 52 \<le> rne (a / ?q)"
    by (rule rne_ge_int)
  then have "2 powi 52 \<le> real_of_int (rne (a / ?q))"
    by (metis of_int_le_iff of_int_numeral of_int_power power_int_numeral)
  then have "2 powi 52 * ?q \<le> real_of_int (rne (a / ?q)) * ?q"
    using q by (simp add: mult_right_mono)
  then show ?thesis
    by (simp only: b64_mag_def b64_quantum_binade powi2_split(2) [symmetric])
qed

lemma b64_mag_nonneg:
  assumes "0 < a"
  shows "0 \<le> b64_mag a"
proof -
  have "of_int 0 \<le> a / b64_quantum a"
    using assms b64_quantum_pos [of a] by simp
  then have "0 \<le> rne (a / b64_quantum a)"
    by (rule rne_ge_int)
  then show ?thesis
    using b64_quantum_pos [of a] by (simp add: b64_mag_def)
qed

lemma b64_mag_mono:
  assumes "0 < a" and "a \<le> b"
  shows "b64_mag a \<le> b64_mag b"
proof -
  have b: "0 < b"
    using assms by linarith
  have le: "b64_binade a \<le> b64_binade b"
    using floor_log2_mono [OF assms] by (simp add: b64_binade_def)
  show ?thesis
  proof (cases "b64_binade a = b64_binade b")
    case True
    then have q: "b64_quantum a = b64_quantum b"
      by (simp add: b64_quantum_binade)
    have "a / b64_quantum b \<le> b / b64_quantum b"
      using assms(2) b64_quantum_pos [of b] by (simp add: divide_right_mono)
    then have "rne (a / b64_quantum b) \<le> rne (b / b64_quantum b)"
      by (rule rne_mono)
    then show ?thesis
      using b64_quantum_pos [of b] by (simp add: b64_mag_def q mult_right_mono)
  next
    case False
    with le have lt: "b64_binade a + 1 \<le> b64_binade b"
      by simp
    then have "- 1022 < b64_binade b"
      by (simp add: b64_binade_def)
    then have normal: "- 1022 \<le> \<lfloor>log 2 b\<rfloor>"
      by (simp add: b64_binade_def max_def split: if_splits)
    have "b64_mag a \<le> 2 powi (b64_binade a + 1)"
      by (rule b64_mag_upper [OF assms(1)])
    also have "\<dots> \<le> 2 powi b64_binade b"
      using lt by (intro power_int_increasing) simp_all
    also have "\<dots> \<le> b64_mag b"
      by (rule b64_mag_lower [OF b normal])
    finally show ?thesis .
  qed
qed

lemma b64_zero: "b64 0 = 0"
  by (simp add: b64_def)

lemma b64_nonneg:
  assumes "0 \<le> x"
  shows "0 \<le> b64 x"
  using assms b64_mag_nonneg [of x] by (simp add: b64_def)

lemma b64_nonpos:
  assumes "x \<le> 0"
  shows "b64 x \<le> 0"
  using assms b64_mag_nonneg [of "- x"] by (simp add: b64_def)

lemma b64_mono:
  assumes "x \<le> y"
  shows "b64 x \<le> b64 y"
proof -
  consider "0 < x" | "y < 0" | "x \<le> 0" "0 \<le> y"
    using assms by linarith
  then show ?thesis
  proof cases
    case 1
    with assms have "0 < y"
      by linarith
    with 1 b64_mag_mono [OF 1 assms] show ?thesis
      by (simp add: b64_def)
  next
    case 2
    with assms have "x < 0"
      by linarith
    moreover have "b64_mag (- y) \<le> b64_mag (- x)"
      using 2 assms by (intro b64_mag_mono) simp_all
    ultimately show ?thesis
      using 2 by (simp add: b64_def)
  next
    case 3
    with b64_nonpos [of x] b64_nonneg [of y] show ?thesis
      by linarith
  qed
qed

lemma b64_minus: "b64 (- x) = - b64 x"
  by (simp add: b64_def)

lemma b64_at:
  assumes "2 powi E \<le> x" and "x < 2 powi (E + 1)" and "- 1022 \<le> E"
  shows "b64 x = of_int (rne (x / 2 powi (E - 52))) * 2 powi (E - 52)"
proof -
  have "0 < (2::real) powi E"
    by simp
  with assms(1) have pos: "0 < x"
    by linarith
  have "\<lfloor>log 2 x\<rfloor> = E"
    by (rule floor_log2_eq [OF assms(1,2)])
  with assms(3) have "b64_quantum x = 2 powi (E - 52)"
    by (simp add: b64_quantum_def b64_binade_def)
  with pos show ?thesis
    by (simp add: b64_def b64_mag_def)
qed

lemma b64_exact_pos:
  assumes "x = of_int n * 2 powi e" and "0 < n" and "n < 2 ^ 53" and "- 1074 \<le> e"
  shows "b64 x = x"
proof -
  have pos: "0 < x"
    using assms(1,2) by simp
  have "real_of_int n < 2 powi 53"
    using assms(3) by (metis of_int_less_iff of_int_numeral of_int_power power_int_numeral)
  then have "x < 2 powi 53 * 2 powi e"
    unfolding assms(1) by (simp add: mult_strict_right_mono)
  then have below: "x < 2 powi (53 + e)"
    by (simp only: powi2_add)
  have "\<lfloor>log 2 x\<rfloor> < 53 + e"
  proof (rule ccontr)
    assume "\<not> \<lfloor>log 2 x\<rfloor> < 53 + e"
    then have "(2::real) powi (53 + e) \<le> 2 powi \<lfloor>log 2 x\<rfloor>"
      by (intro power_int_increasing) simp_all
    with floor_log2_bounds(1) [OF pos] below show False
      by linarith
  qed
  with assms(4) have B: "b64_binade x - 52 \<le> e"
    by (simp add: b64_binade_def)
  define d where "d = nat (e - (b64_binade x - 52))"
  define q where "q = b64_quantum x"
  have q_pos: "0 < q"
    by (simp add: q_def b64_quantum_pos)
  have e: "e = int d + (b64_binade x - 52)"
    using B by (simp add: d_def)
  have "(2::real) powi e = 2 powi int d * 2 powi (b64_binade x - 52)"
    by (subst e) (rule powi2_add)
  then have split: "(2::real) powi e = 2 ^ d * q"
    by (simp add: q_def b64_quantum_binade)
  have xq: "x = of_int (n * 2 ^ d) * q"
    by (simp add: assms(1) split)
  have "x / q = of_int (n * 2 ^ d)"
    using q_pos by (simp add: xq)
  then have "rne (x / q) = n * 2 ^ d"
    by (simp only: rne_of_int)
  then have "of_int (rne (x / q)) * q = x"
    by (simp only: xq [symmetric])
  then have "b64_mag x = x"
    by (simp only: b64_mag_def q_def)
  with pos show ?thesis
    by (simp add: b64_def)
qed

lemma b64_exact:
  assumes "x = of_int n * 2 powi e" and "\<bar>n\<bar> < 2 ^ 53" and "- 1074 \<le> e"
  shows "b64 x = x"
proof -
  consider "n = 0" | "0 < n" | "n < 0"
    by linarith
  then show ?thesis
  proof cases
    case 1
    with assms(1) show ?thesis
      by (simp add: b64_zero)
  next
    case 2
    with assms show ?thesis
      by (intro b64_exact_pos [of x n e]) simp_all
  next
    case 3
    with assms have "b64 (- x) = - x"
      by (intro b64_exact_pos [of "- x" "- n" e]) simp_all
    then show ?thesis
      by (simp add: b64_minus)
  qed
qed

lemma b64_int:
  assumes "\<bar>n\<bar> < 2 ^ 53"
  shows "b64 (of_int n) = of_int n"
  using assms by (intro b64_exact [of _ n 0]) simp_all

lemma b64_numeral:
  assumes "numeral k < (2::int) ^ 53"
  shows "b64 (numeral k) = numeral k"
  using b64_int [of "numeral k"] assms by simp

lemma b64_neg_numeral:
  assumes "numeral k < (2::int) ^ 53"
  shows "b64 (- numeral k) = - numeral k"
  using b64_numeral [OF assms] by (simp add: b64_minus)

lemma b64_one: "b64 1 = 1"
  using b64_int [of 1] by simp

lemma b64_fractions: "b64 (1 / 2) = 1 / 2" "b64 (3 / 2) = 3 / 2" "b64 (27 / 16) = 27 / 16"
  using b64_exact [of "1 / 2" 1 "- 1"] b64_exact [of "3 / 2" 3 "- 1"]
    b64_exact [of "27 / 16" 27 "- 4"]
  by simp_all

section \<open>Reallocation simulator in float64 (C10)\<close>

lemma simulate_rounded_exact: "simulate_rounded (\<lambda>x. x) = simulate"
  by (intro ext) (simp add: simulate_rounded_def simulate_def)

lemma simulate_f64_fields:
  "transfer_amount (simulate_f64 ss sr tr pct gcr gts) = b64 (ss * b64 (real_of_int pct / 100))"
  "rev_lost (simulate_f64 ss sr tr pct gcr gts) =
     b64 (transfer_amount (simulate_f64 ss sr tr pct gcr gts) * sr)"
  "rev_gained (simulate_f64 ss sr tr pct gcr gts) =
     b64 (transfer_amount (simulate_f64 ss sr tr pct gcr gts) * tr)"
  "net_revenue_impact (simulate_f64 ss sr tr pct gcr gts) =
     b64 (rev_gained (simulate_f64 ss sr tr pct gcr gts) - rev_lost (simulate_f64 ss sr tr pct gcr gts))"
  "new_total_rev (simulate_f64 ss sr tr pct gcr gts) =
     b64 (gcr + net_revenue_impact (simulate_f64 ss sr tr pct gcr gts))"
  "0 < gts \<Longrightarrow> old_global_roas (simulate_f64 ss sr tr pct gcr gts) = b64 (gcr / gts)"
  "0 < gts \<Longrightarrow> new_global_roas (simulate_f64 ss sr tr pct gcr gts) =
     b64 (new_total_rev (simulate_f64 ss sr tr pct gcr gts) / gts)"
  by (simp_all add: simulate_f64_def simulate_rounded_def Let_def)

text \<open>
  C10, as the code has it. The program computes in float64, where a product or a sum is
  rounded. For a positive transfer amount and a positive global spend, with no result
  overflowing: the net impact is positive only if the target ROAS exceeds the source
  ROAS and negative only if it is lower; it is never negative when the target ROAS is
  higher, never positive when it is lower, and 0 when the two are equal. The new global
  ROAS is the rounded quotient of the rounded sum of the current revenue and the net
  impact by the unchanged global spend; it is not below the old global ROAS when the net
  impact is not negative, not above it when the net impact is not positive, and equal
  to it when the two ROAS are equal.
\<close>

theorem C10_net_impact_sign:
  assumes "0 < transfer_amount (simulate_f64 ss sr tr pct gcr gts)" and "0 < gts"
    and "b64 gcr = gcr"
    and "simulation_finite (simulate_f64 ss sr tr pct gcr gts)"
  shows "(0 < net_revenue_impact (simulate_f64 ss sr tr pct gcr gts) \<longrightarrow> sr < tr) \<and>
         (net_revenue_impact (simulate_f64 ss sr tr pct gcr gts) < 0 \<longrightarrow> tr < sr) \<and>
         (sr < tr \<longrightarrow> 0 \<le> net_revenue_impact (simulate_f64 ss sr tr pct gcr gts)) \<and>
         (tr < sr \<longrightarrow> net_revenue_impact (simulate_f64 ss sr tr pct gcr gts) \<le> 0) \<and>
         (tr = sr \<longrightarrow> net_revenue_impact (simulate_f64 ss sr tr pct gcr gts) = 0) \<and>
         old_global_roas (simulate_f64 ss sr tr pct gcr gts) = b64 (gcr / gts) \<and>
         new_global_roas (simulate_f64 ss sr tr pct gcr gts) =
           b64 (b64 (gcr + net_revenue_impact (simulate_f64 ss sr tr pct gcr gts)) / gts) \<and>
         (0 \<le> net_revenue_impact (simulate_f64 ss sr tr pct gcr gts) \<longrightarrow>
            old_global_roas (simulate_f64 ss sr tr pct gcr gts) \<le>
            new_global_roas (simulate_f64 ss sr tr pct gcr gts)) \<and>
         (net_revenue_impact (simulate_f64 ss sr tr pct gcr gts) \<le> 0 \<longrightarrow>
            new_global_roas (simulate_f64 ss sr tr pct gcr gts) \<le>
            old_global_roas (simulate_f64 ss sr tr pct gcr gts)) \<and>
         (old_global_roas (simulate_f64 ss sr tr pct gcr gts) <
            new_global_roas (simulate_f64 ss sr tr pct gcr gts) \<longrightarrow> sr < tr) \<and>
         (new_global_roas (simulate_f64 ss sr tr pct gcr gts) <
            old_global_roas (simulate_f64 ss sr tr pct gcr gts) \<longrightarrow> tr < sr) \<and>
         (tr = sr \<longrightarrow>
            new_global_roas (simulate_f64 ss sr tr pct gcr gts) =
            old_global_roas (simulate_f64 ss sr tr pct gcr gts))"
proof -
  let ?s = "simulate_f64 ss sr tr pct gcr gts"
  define t where "t = transfer_amount ?s"
  have t_pos: "0 < t"
    using assms(1) by (simp add: t_def)
  have lost: "rev_lost ?s = b64 (t * sr)" and gained: "rev_gained ?s = b64 (t * tr)"
    by (simp_all add: simulate_f64_fields(2,3) t_def)
  define net where "net = net_revenue_impact ?s"
  have net: "net = b64 (b64 (t * tr) - b64 (t * sr))"
    by (simp add: net_def simulate_f64_fields(4) lost gained)
  have up: "0 \<le> net" if "sr \<le> tr"
  proof -
    have "t * sr \<le> t * tr"
      using that t_pos by simp
    then have "b64 (t * sr) \<le> b64 (t * tr)"
      by (rule b64_mono)
    then have "b64 0 \<le> b64 (b64 (t * tr) - b64 (t * sr))"
      by (intro b64_mono) simp
    then show ?thesis
      by (simp add: net b64_zero)
  qed
  have down: "net \<le> 0" if "tr \<le> sr"
  proof -
    have "t * tr \<le> t * sr"
      using that t_pos by simp
    then have "b64 (t * tr) \<le> b64 (t * sr)"
      by (rule b64_mono)
    then have "b64 (b64 (t * tr) - b64 (t * sr)) \<le> b64 0"
      by (intro b64_mono) simp
    then show ?thesis
      by (simp add: net b64_zero)
  qed
  have same: "net = 0" if "tr = sr"
    using that by (simp add: net b64_zero)
  have old: "old_global_roas ?s = b64 (gcr / gts)"
    by (rule simulate_f64_fields(6) [OF assms(2)])
  have new: "new_global_roas ?s = b64 (b64 (gcr + net) / gts)"
    by (simp add: simulate_f64_fields(7) [OF assms(2)] simulate_f64_fields(5) net_def)
  have rise: "old_global_roas ?s \<le> new_global_roas ?s" if "0 \<le> net"
  proof -
    have "b64 gcr \<le> b64 (gcr + net)"
      using that by (intro b64_mono) simp
    then have "gcr / gts \<le> b64 (gcr + net) / gts"
      using assms(2,3) by (simp add: divide_right_mono)
    then show ?thesis
      unfolding old new by (rule b64_mono)
  qed
  have fall: "new_global_roas ?s \<le> old_global_roas ?s" if "net \<le> 0"
  proof -
    have "b64 (gcr + net) \<le> b64 gcr"
      using that by (intro b64_mono) simp
    then have "b64 (gcr + net) / gts \<le> gcr / gts"
      using assms(2,3) by (simp add: divide_right_mono)
    then show ?thesis
      unfolding old new by (rule b64_mono)
  qed
  have still: "new_global_roas ?s = old_global_roas ?s" if "tr = sr"
    using same [OF that] by (simp add: old new assms(3))
  have c1: "0 < net \<longrightarrow> sr < tr"
    using down by (meson not_le)
  have c2: "net < 0 \<longrightarrow> tr < sr"
    using up by (meson not_le)
  have c3: "sr < tr \<longrightarrow> 0 \<le> net" and c4: "tr < sr \<longrightarrow> net \<le> 0" and c5: "tr = sr \<longrightarrow> net = 0"
    using up down same by simp_all
  have c6: "0 \<le> net \<longrightarrow> old_global_roas ?s \<le> new_global_roas ?s"
    and c7: "net \<le> 0 \<longrightarrow> new_global_roas ?s \<le> old_global_roas ?s"
    using rise fall by simp_all
  have c8: "old_global_roas ?s < new_global_roas ?s \<longrightarrow> sr < tr"
    using fall down by (meson not_le)
  have c9: "new_global_roas ?s < old_global_roas ?s \<longrightarrow> tr < sr"
    using rise up by (meson not_le)
  have c10: "tr = sr \<longrightarrow> new_global_roas ?s = old_global_roas ?s"
    using still by simp
  show ?thesis
    using c1 c2 c3 c4 c5 old new c6 c7 c8 c9 c10 unfolding net_def by (intro conjI)
qed

text \<open>The spec's example, where every result is a binary64 number and nothing is rounded.\<close>

lemma exact_case_simulation:
  "simulate_f64 1000000 (1 / 2) 2 50 6000000 4000000 =
     \<lparr> transfer_amount = 500000, rev_lost = 250000, rev_gained = 1000000,
       net_revenue_impact = 750000, new_total_rev = 6750000,
       old_global_roas = 3 / 2, new_global_roas = 27 / 16 \<rparr>"
  by (simp add: simulate_f64_def simulate_rounded_def Let_def b64_numeral b64_fractions)

theorem C10_net_impact_sign_witness:
  "0 < transfer_amount (simulate_f64 1000000 (1 / 2) 2 50 6000000 4000000) \<and>
   (0::real) < 4000000 \<and> b64 6000000 = 6000000 \<and>
   simulation_finite (simulate_f64 1000000 (1 / 2) 2 50 6000000 4000000) \<and>
   0 < net_revenue_impact (simulate_f64 1000000 (1 / 2) 2 50 6000000 4000000) \<and>
   (1 / 2 :: real) < 2 \<and>
   old_global_roas (simulate_f64 1000000 (1 / 2) 2 50 6000000 4000000) = 3 / 2 \<and>
   new_global_roas (simulate_f64 1000000 (1 / 2) 2 50 6000000 4000000) = 27 / 16 \<and>
   old_global_roas (simulate_f64 1000000 (1 / 2) 2 50 6000000 4000000) \<le>
     new_global_roas (simulate_f64 1000000 (1 / 2) 2 50 6000000 4000000)"
proof -
  have t: "0 < transfer_amount (simulate_f64 1000000 (1 / 2) 2 50 6000000 4000000)"
    by (simp add: exact_case_simulation)
  have g: "(0::real) < 4000000"
    by simp
  have r: "b64 6000000 = 6000000"
    by (simp add: b64_numeral)
  have f: "simulation_finite (simulate_f64 1000000 (1 / 2) 2 50 6000000 4000000)"
    by (simp add: exact_case_simulation simulation_finite_def finite64_def)
  note c10 = C10_net_impact_sign [OF t g r f]
  have net: "0 < net_revenue_impact (simulate_f64 1000000 (1 / 2) 2 50 6000000 4000000)"
    by (simp add: exact_case_simulation)
  from c10 net have order: "(1 / 2 :: real) < 2"
    by blast
  from c10 net have rise: "old_global_roas (simulate_f64 1000000 (1 / 2) 2 50 6000000 4000000) \<le>
     new_global_roas (simulate_f64 1000000 (1 / 2) 2 50 6000000 4000000)"
    by simp
  have vals: "old_global_roas (simulate_f64 1000000 (1 / 2) 2 50 6000000 4000000) = 3 / 2"
    "new_global_roas (simulate_f64 1000000 (1 / 2) 2 50 6000000 4000000) = 27 / 16"
    by (simp_all add: exact_case_simulation)
  show ?thesis
    by (intro conjI t g r f net order vals rise)
qed

text \<open>
  The claim as the spec words it has the net impact positive whenever the target ROAS
  exceeds the source ROAS, and the global ROAS moving with it. In float64 a small
  difference is lost: with 35 percent of a spend of 1,000,000, a source ROAS of 3/7 and
  as target ROAS the next float64 above it, both products round to 150,000, the net
  impact is 0 and the global ROAS does not move.
\<close>

lemma b64_transfer: "b64 (1000000 * (6305039478318694 / 18014398509481984)) = 350000"
  by (subst b64_at [of 18]) (simp_all add: rne_def Let_def)

lemma b64_lost: "b64 (350000 * (7720456504063707 / 18014398509481984)) = 150000"
  by (subst b64_at [of 17]) (simp_all add: rne_def Let_def)

lemma b64_gained: "b64 (350000 * (7720456504063708 / 18014398509481984)) = 150000"
  by (subst b64_at [of 17]) (simp_all add: rne_def Let_def)

lemma b64_35_percent: "b64 (7 / 20) = 6305039478318694 / 18014398509481984"
  by (subst b64_at [of "- 2"]) (simp_all add: rne_def Let_def)

lemma rounding_case_simulation:
  "simulate_f64 1000000 roas_3_7 roas_3_7_next 35 2000000 1000000 =
     \<lparr> transfer_amount = 350000, rev_lost = 150000, rev_gained = 150000,
       net_revenue_impact = 0, new_total_rev = 2000000,
       old_global_roas = 2, new_global_roas = 2 \<rparr>"
proof -
  have t: "b64 (1000000 * b64 (7 / 20)) = 350000"
    by (simp only: b64_35_percent b64_transfer)
  have lost: "b64 (350000 * roas_3_7) = 150000"
    unfolding roas_3_7_def by (rule b64_lost)
  have gained: "b64 (350000 * roas_3_7_next) = 150000"
    unfolding roas_3_7_next_def by (rule b64_gained)
  show ?thesis
    by (simp add: simulate_f64_def simulate_rounded_def Let_def t lost gained b64_zero
        b64_numeral)
qed

theorem C10_rounding_counterexample:
  "roas_3_7 < roas_3_7_next \<and>
   b64 roas_3_7 = roas_3_7 \<and> b64 roas_3_7_next = roas_3_7_next \<and>
   0 < transfer_amount (simulate_f64 1000000 roas_3_7 roas_3_7_next 35 2000000 1000000) \<and>
   simulation_finite (simulate_f64 1000000 roas_3_7 roas_3_7_next 35 2000000 1000000) \<and>
   \<not> 0 < net_revenue_impact (simulate_f64 1000000 roas_3_7 roas_3_7_next 35 2000000 1000000) \<and>
   new_global_roas (simulate_f64 1000000 roas_3_7 roas_3_7_next 35 2000000 1000000) =
     old_global_roas (simulate_f64 1000000 roas_3_7 roas_3_7_next 35 2000000 1000000)"
proof -
  have order: "roas_3_7 < roas_3_7_next"
    by (simp add: roas_3_7_def roas_3_7_next_def)
  have floats: "b64 roas_3_7 = roas_3_7" "b64 roas_3_7_next = roas_3_7_next"
    using b64_exact [of roas_3_7 7720456504063707 "- 54"]
      b64_exact [of roas_3_7_next 7720456504063708 "- 54"]
    by (simp_all add: roas_3_7_def roas_3_7_next_def)
  show ?thesis
    by (simp add: order floats rounding_case_simulation simulation_finite_def finite64_def)
qed

section \<open>Aggregate ROAS per group (C1)\<close>

lemma groupby_keys_set: "set (groupby_keys key df) = key ` set df"
  by (simp add: groupby_keys_def)

lemma groupby_keys_distinct: "distinct (groupby_keys key df)"
  by (simp add: groupby_keys_def)

lemma groupby_sum_roas_keys: "map group_key (groupby_sum_roas key fd) = groupby_keys key fd"
  by (simp add: groupby_sum_roas_def Let_def o_def)

lemma groupby_sum_roas_row:
  assumes "row \<in> set (groupby_sum_roas key fd)"
  shows "agg_roas row =
     (if 0 < sum_list (map amount_spent (filter (\<lambda>r. key r = group_key row) fd))
      then sum_list (map purchase_value (filter (\<lambda>r. key r = group_key row) fd)) /
           sum_list (map amount_spent (filter (\<lambda>r. key r = group_key row) fd))
      else 0)"
proof -
  from assms obtain k where "row =
      \<lparr> group_key = k,
        agg_purchase_value = sum_list (map purchase_value (group_rows key fd k)),
        agg_amount_spent = sum_list (map amount_spent (group_rows key fd k)),
        agg_roas = (if sum_list (map amount_spent (group_rows key fd k)) > 0
                    then sum_list (map purchase_value (group_rows key fd k)) /
                         sum_list (map amount_spent (group_rows key fd k))
                    else 0) \<rparr>"
    by (auto simp add: groupby_sum_roas_def Let_def)
  then show ?thesis
    by (simp add: group_rows_def)
qed

lemma industry_perf_keys: "map ind_industry (industry_perf fd) = groupby_keys industry fd"
  by (simp add: industry_perf_def Let_def o_def)

lemma industry_perf_row:
  assumes "row \<in> set (industry_perf fd)"
  shows "total_revenue row = sum_list (map purchase_value (filter (\<lambda>r. industry r = ind_industry row) fd)) \<and>
         total_spend row = sum_list (map amount_spent (filter (\<lambda>r. industry r = ind_industry row) fd)) \<and>
         ind_roas row = (if 0 < total_spend row then total_revenue row / total_spend row else 0)"
proof -
  from assms obtain k where "row =
      \<lparr> ind_industry = k,
        total_revenue = sum_list (map purchase_value (group_rows industry fd k)),
        avg_daily_revenue = series_mean (map purchase_value (group_rows industry fd k)),
        total_spend = sum_list (map amount_spent (group_rows industry fd k)),
        avg_daily_spend = series_mean (map amount_spent (group_rows industry fd k)),
        ind_roas = (if sum_list (map amount_spent (group_rows industry fd k)) > 0
                    then sum_list (map purchase_value (group_rows industry fd k)) /
                         sum_list (map amount_spent (group_rows industry fd k))
                    else 0) \<rparr>"
    by (auto simp add: industry_perf_def Let_def)
  then show ?thesis
    by (simp add: group_rows_def)
qed

lemma roas_by_obj_row:
  assumes "(ob, m) \<in> set (roas_by_obj fd)"
  shows "m = sum_list (map roas (filter (\<lambda>r. campaign_objective r = ob) fd)) /
             real (length (filter (\<lambda>r. campaign_objective r = ob) fd))"
  using assms by (auto simp add: roas_by_obj_def group_rows_def series_mean_def)

text \<open>
  C1, as the code has it. In the tables grouped by client (\<^verbatim>\<open>client_matrix\<close>), by
  industry (\<^verbatim>\<open>industry_perf\<close>), by month (\<^verbatim>\<open>monthly_trend\<close>) and by the pair of client
  and industry (\<^verbatim>\<open>client_perf\<close>), the ROAS of a group is the group's summed revenue over
  the group's summed spend, and 0 when that spend is not positive; each table has exactly
  one row per group of the view. The table grouped by campaign objective
  (\<^verbatim>\<open>roas_by_obj\<close>, the chart "Average ROAS by Campaign Objective") reports the mean of
  the per-record ROAS of the group.
\<close>

theorem C1_group_roas:
  "(crow \<in> set (client_matrix fd) \<longrightarrow>
      agg_roas crow =
        (if 0 < sum_list (map amount_spent (filter (\<lambda>r. client_name r = group_key crow) fd))
         then sum_list (map purchase_value (filter (\<lambda>r. client_name r = group_key crow) fd)) /
              sum_list (map amount_spent (filter (\<lambda>r. client_name r = group_key crow) fd))
         else 0)) \<and>
   (irow \<in> set (industry_perf fd) \<longrightarrow>
      ind_roas irow =
        (if 0 < sum_list (map amount_spent (filter (\<lambda>r. industry r = ind_industry irow) fd))
         then sum_list (map purchase_value (filter (\<lambda>r. industry r = ind_industry irow) fd)) /
              sum_list (map amount_spent (filter (\<lambda>r. industry r = ind_industry irow) fd))
         else 0)) \<and>
   (prow \<in> set (client_perf fd) \<longrightarrow>
      agg_roas prow =
        (if 0 < sum_list (map amount_spent
                  (filter (\<lambda>r. (client_name r, industry r) = group_key prow) fd))
         then sum_list (map purchase_value
                  (filter (\<lambda>r. (client_name r, industry r) = group_key prow) fd)) /
              sum_list (map amount_spent
                  (filter (\<lambda>r. (client_name r, industry r) = group_key prow) fd))
         else 0)) \<and>
   (mrow \<in> set (monthly_trend fd) \<longrightarrow>
      agg_roas mrow =
        (if 0 < sum_list (map amount_spent (filter (\<lambda>r. to_period_M r = group_key mrow) fd))
         then sum_list (map purchase_value (filter (\<lambda>r. to_period_M r = group_key mrow) fd)) /
              sum_list (map amount_spent (filter (\<lambda>r. to_period_M r = group_key mrow) fd))
         else 0)) \<and>
   ((ob, m) \<in> set (roas_by_obj fd) \<longrightarrow>
      m = sum_list (map roas (filter (\<lambda>r. campaign_objective r = ob) fd)) /
          real (length (filter (\<lambda>r. campaign_objective r = ob) fd))) \<and>
   set (map group_key (client_matrix fd)) = client_name ` set fd \<and>
   distinct (map group_key (client_matrix fd)) \<and>
   set (map ind_industry (industry_perf fd)) = industry ` set fd \<and>
   distinct (map ind_industry (industry_perf fd)) \<and>
   set (map group_key (client_perf fd)) = (\<lambda>r. (client_name r, industry r)) ` set fd \<and>
   distinct (map group_key (client_perf fd)) \<and>
   set (map group_key (monthly_trend fd)) = to_period_M ` set fd \<and>
   distinct (map group_key (monthly_trend fd)) \<and>
   set (map fst (roas_by_obj fd)) = campaign_objective ` set fd \<and>
   distinct (map fst (roas_by_obj fd))"
proof -
  have obj_keys: "map fst (roas_by_obj fd) = groupby_keys campaign_objective fd"
    by (simp add: roas_by_obj_def o_def)
  have rows: "crow \<in> set (client_matrix fd) \<longrightarrow>
      agg_roas crow =
        (if 0 < sum_list (map amount_spent (filter (\<lambda>r. client_name r = group_key crow) fd))
         then sum_list (map purchase_value (filter (\<lambda>r. client_name r = group_key crow) fd)) /
              sum_list (map amount_spent (filter (\<lambda>r. client_name r = group_key crow) fd))
         else 0)"
    "prow \<in> set (client_perf fd) \<longrightarrow>
      agg_roas prow =
        (if 0 < sum_list (map amount_spent
                  (filter (\<lambda>r. (client_name r, industry r) = group_key prow) fd))
         then sum_list (map purchase_value
                  (filter (\<lambda>r. (client_name r, industry r) = group_key prow) fd)) /
              sum_list (map amount_spent
                  (filter (\<lambda>r. (client_name r, industry r) = group_key prow) fd))
         else 0)"
    "mrow \<in> set (monthly_trend fd) \<longrightarrow>
      agg_roas mrow =
        (if 0 < sum_list (map amount_spent (filter (\<lambda>r. to_period_M r = group_key mrow) fd))
         then sum_list (map purchase_value (filter (\<lambda>r. to_period_M r = group_key mrow) fd)) /
              sum_list (map amount_spent (filter (\<lambda>r. to_period_M r = group_key mrow) fd))
         else 0)"
    unfolding client_matrix_def client_perf_def monthly_trend_def
    using groupby_sum_roas_row [of crow client_name fd]
      groupby_sum_roas_row [of prow "\<lambda>r. (client_name r, industry r)" fd]
      groupby_sum_roas_row [of mrow to_period_M fd]
    by blast+
  have irow: "irow \<in> set (industry_perf fd) \<longrightarrow>
      ind_roas irow =
        (if 0 < sum_list (map amount_spent (filter (\<lambda>r. industry r = ind_industry irow) fd))
         then sum_list (map purchase_value (filter (\<lambda>r. industry r = ind_industry irow) fd)) /
              sum_list (map amount_spent (filter (\<lambda>r. industry r = ind_industry irow) fd))
         else 0)"
    using industry_perf_row [of irow fd] by simp
  have orow: "(ob, m) \<in> set (roas_by_obj fd) \<longrightarrow>
      m = sum_list (map roas (filter (\<lambda>r. campaign_objective r = ob) fd)) /
          real (length (filter (\<lambda>r. campaign_objective r = ob) fd))"
    using roas_by_obj_row [of ob m fd] by blast
  have keys: "set (map group_key (client_matrix fd)) = client_name ` set fd"
    "distinct (map group_key (client_matrix fd))"
    "set (map ind_industry (industry_perf fd)) = industry ` set fd"
    "distinct (map ind_industry (industry_perf fd))"
    "set (map group_key (client_perf fd)) = (\<lambda>r. (client_name r, industry r)) ` set fd"
    "distinct (map group_key (client_perf fd))"
    "set (map group_key (monthly_trend fd)) = to_period_M ` set fd"
    "distinct (map group_key (monthly_trend fd))"
    "set (map fst (roas_by_obj fd)) = campaign_objective ` set fd"
    "distinct (map fst (roas_by_obj fd))"
    by (simp_all only: client_matrix_def client_perf_def monthly_trend_def
        groupby_sum_roas_keys industry_perf_keys obj_keys groupby_keys_set groupby_keys_distinct)
  from rows irow orow keys show ?thesis
    by blast
qed

text \<open>The tables of a view with three clients, one of them without spend.\<close>

lemma view_clients_client_keys: "groupby_keys client_name view_clients = [''Client A'', ''Client B'', ''Client C'']"
  by (simp add: groupby_keys_def view_clients_def fixture_row_def)

lemma view_clients_objective_keys: "groupby_keys campaign_objective view_clients = [''Awareness'', ''Sales'', ''Traffic'']"
  by (simp add: groupby_keys_def view_clients_def fixture_row_def)

lemma view_clients_client_groups:
  "group_rows client_name view_clients ''Client A'' = view_two_sales"
  "group_rows client_name view_clients ''Client B'' =
     [fixture_row (ymd2ord 2023 4 5) ''Client B'' ''Beauty'' ''Traffic'' 200 0 4000 80]"
  "group_rows client_name view_clients ''Client C'' = view_zero_spend"
  by (simp_all add: group_rows_def view_clients_def view_two_sales_def view_zero_spend_def fixture_row_def)

lemma view_clients_matrix:
  "client_matrix view_clients =
     [\<lparr> group_key = ''Client A'', agg_purchase_value = 1000, agg_amount_spent = 400, agg_roas = 5 / 2 \<rparr>,
      \<lparr> group_key = ''Client B'', agg_purchase_value = 0, agg_amount_spent = 200, agg_roas = 0 \<rparr>,
      \<lparr> group_key = ''Client C'', agg_purchase_value = 0, agg_amount_spent = 0, agg_roas = 0 \<rparr>]"
  unfolding client_matrix_def groupby_sum_roas_def view_clients_client_keys
  by (simp add: view_clients_client_groups Let_def view_two_sales_def view_zero_spend_def fixture_row_def)

lemma view_clients_sales:
  "filter (\<lambda>r. campaign_objective r = ''Sales'') view_clients = view_two_sales"
  "filter (\<lambda>r. client_name r = ''Client A'') view_clients = view_two_sales"
  "filter (\<lambda>r. client_name r = ''Client C'') view_clients = view_zero_spend"
  by (simp_all add: view_clients_def view_two_sales_def view_zero_spend_def fixture_row_def)

lemma view_clients_roas_by_obj: "(''Sales'', 2) \<in> set (roas_by_obj view_clients)"
  unfolding roas_by_obj_def view_clients_objective_keys
  by (simp add: group_rows_def view_clients_sales series_mean_def view_two_sales_def fixture_row_def)

theorem C1_group_roas_witness:
  "\<lparr> group_key = ''Client A'', agg_purchase_value = 1000, agg_amount_spent = 400,
      agg_roas = 5 / 2 \<rparr> \<in> set (client_matrix view_clients) \<and>
   sum_list (map amount_spent (filter (\<lambda>r. client_name r = ''Client A'') view_clients)) = 400 \<and>
   sum_list (map purchase_value (filter (\<lambda>r. client_name r = ''Client A'') view_clients)) = 1000 \<and>
   (''Sales'', 2) \<in> set (roas_by_obj view_clients) \<and>
   sum_list (map roas (filter (\<lambda>r. campaign_objective r = ''Sales'') view_clients)) = 4 \<and>
   length (filter (\<lambda>r. campaign_objective r = ''Sales'') view_clients) = 2 \<and>
   set (map group_key (client_matrix view_clients)) = client_name ` set view_clients"
proof -
  have row_a: "\<lparr> group_key = ''Client A'', agg_purchase_value = 1000, agg_amount_spent = 400,
      agg_roas = 5 / 2 \<rparr> \<in> set (client_matrix view_clients)"
    by (simp add: view_clients_matrix)
  have sums:
    "sum_list (map amount_spent (filter (\<lambda>r. client_name r = ''Client A'') view_clients)) = 400"
    "sum_list (map purchase_value (filter (\<lambda>r. client_name r = ''Client A'') view_clients)) = 1000"
    "sum_list (map roas (filter (\<lambda>r. campaign_objective r = ''Sales'') view_clients)) = 4"
    "length (filter (\<lambda>r. campaign_objective r = ''Sales'') view_clients) = 2"
    by (simp_all add: view_clients_sales view_two_sales_def fixture_row_def)
  note c1 = C1_group_roas [of
      "\<lparr> group_key = ''Client A'', agg_purchase_value = 1000, agg_amount_spent = 400, agg_roas = 5 / 2 \<rparr>"
      view_clients
      "\<lparr> ind_industry = ''Beauty'', total_revenue = 0, avg_daily_revenue = 0, total_spend = 200,
         avg_daily_spend = 100, ind_roas = 0 \<rparr>"
      "\<lparr> group_key = (''Client A'', ''Fashion''), agg_purchase_value = 1000, agg_amount_spent = 400,
         agg_roas = 5 / 2 \<rparr>"
      "\<lparr> group_key = (2023, 3), agg_purchase_value = 1000, agg_amount_spent = 400, agg_roas = 5 / 2 \<rparr>"
      "''Sales''" 2]
  note keys = c1 [THEN conjunct2, THEN conjunct2, THEN conjunct2, THEN conjunct2, THEN conjunct2,
      THEN conjunct1]
  show ?thesis
    by (intro conjI row_a sums view_clients_roas_by_obj keys)
qed

text \<open>
  The claim as the spec words it names the objective among the dimensions whose ROAS is
  never a mean of per-record values. On the two Sales rows the objective table reports
  the mean 2, not the ratio of sums 5/2.
\<close>

theorem C1_objective_counterexample:
  "map snd (roas_by_obj view_two_sales) \<noteq>
     [sum_list (map purchase_value view_two_sales) / sum_list (map amount_spent view_two_sales)]"
  by (simp add: roas_by_obj_def groupby_keys_def group_rows_def series_mean_def
      view_two_sales_def fixture_row_def)

section \<open>Zero denominators (C6)\<close>

text \<open>
  C6 at two views of one row each. For a client without spend, impressions or clicks,
  the export's "Client Performance" sheet holds NaN as the client's ROAS and the
  CTR-by-objective table holds NaN as the objective's CTR; for a client with revenue on
  a day without spend the sheet holds an infinite ROAS. The client table of the
  simulator and the blended figures of the Performance section, which guard the same
  divisions, hold 0 on these views.
\<close>

theorem C6_unguarded_ratios:
  "map xl_roas (client_agg view_zero_spend) = [NaN] \<and>
   map xl_roas (client_agg view_unpaid_revenue) = [PosInf] \<and>
   map ctr (ctr_by_obj view_zero_spend) = [NaN] \<and>
   map agg_roas (client_matrix view_zero_spend) = [0] \<and>
   map agg_roas (client_matrix view_unpaid_revenue) = [0] \<and>
   overall_ctr view_zero_spend = 0 \<and>
   overall_roas_metric view_zero_spend = 0"
  by (simp add: client_agg_def ctr_by_obj_def client_matrix_def groupby_sum_roas_def
      groupby_keys_def group_rows_def pd_truediv_def overall_ctr_def overall_roas_metric_def
      total_clicks_metric_def total_impressions_metric_def total_spend_metric_def
      total_omzet_metric_def view_zero_spend_def view_unpaid_revenue_def fixture_row_def Let_def
      int64_sum_def int64_wrap_def)

section \<open>Anomaly detector (C5, C9)\<close>

text \<open>
  The exact rolling columns: from the seventh point on they are the textbook mean and
  sample standard deviation of the points \<open>i - 6\<close> to \<open>i\<close>; before that they are NaN. They
  meet what is assumed of the columns of pandas.
\<close>

lemma take_drop_window:
  assumes "m + n \<le> length xs"
  shows "take n (drop m xs) = map (\<lambda>j. xs ! j) [m..<m + n]"
  using assms by (auto intro!: nth_equalityI)

lemma window_sum:
  assumes "6 \<le> i" and "i < length xs"
  shows "sum_list (map f (take 7 (drop (i - 6) xs))) = (\<Sum>j = i - 6..i. f (xs ! j))"
proof -
  have "take 7 (drop (i - 6) xs) = map (\<lambda>j. xs ! j) [i - 6..<i - 6 + 7]"
    using assms by (intro take_drop_window) simp
  moreover have "i - 6 + 7 = Suc i"
    using assms(1) by simp
  ultimately have "sum_list (map f (take 7 (drop (i - 6) xs))) =
      sum_list (map (\<lambda>j. f (xs ! j)) [i - 6..<Suc i])"
    by (simp add: o_def)
  also have "\<dots> = (\<Sum>j \<in> set [i - 6..<Suc i]. f (xs ! j))"
    by (rule interv_sum_list_conv_sum_set_nat)
  also have "set [i - 6..<Suc i] = {i - 6..i}"
    by auto
  finally show ?thesis .
qed

lemma rolling_window_full:
  assumes "6 \<le> i" and "i < length xs"
  shows "rolling_window 7 xs i = Some (take 7 (drop (i - 6) xs))"
    and "length (take 7 (drop (i - 6) xs)) = 7"
  using assms by (simp_all add: rolling_window_def)

lemma rolling_window_short:
  assumes "i < 6"
  shows "rolling_window 7 xs i = None"
  using assms by (simp add: rolling_window_def)

lemma exact_rolling_mean_full:
  assumes "6 \<le> i" and "i < length xs"
  shows "exact_rolling_mean xs i = Some (trailing_mean xs i)"
proof -
  let ?w = "take 7 (drop (i - 6) xs)"
  have "?w \<noteq> []"
    using rolling_window_full(2) [OF assms] by auto
  then have "pd_mean ?w = Some (sum_list (map (\<lambda>x. x) ?w) / 7)"
    using rolling_window_full(2) [OF assms] by (simp add: pd_mean_def series_mean_def)
  then show ?thesis
    by (simp only: exact_rolling_mean_def rolling_window_full(1) [OF assms] bind.simps
        window_sum [OF assms] trailing_mean_def)
qed

lemma exact_rolling_std_full:
  assumes "6 \<le> i" and "i < length xs"
  shows "exact_rolling_std xs i = Some (trailing_sample_std xs i)"
proof -
  let ?w = "take 7 (drop (i - 6) xs)"
  have len: "length ?w = 7"
    by (rule rolling_window_full(2) [OF assms])
  have mean: "series_mean ?w = trailing_mean xs i"
    using window_sum [OF assms, of "\<lambda>x. x"] len
    by (simp add: series_mean_def trailing_mean_def)
  have "exact_std ?w = Some (sqrt (sum_list (map (\<lambda>x. (x - trailing_mean xs i)\<^sup>2) ?w) / 6))"
    using len by (simp add: exact_std_def mean)
  then show ?thesis
    by (simp only: exact_rolling_std_def rolling_window_full(1) [OF assms] bind.simps
        window_sum [OF assms] trailing_sample_std_def)
qed

lemma exact_std_nonneg:
  assumes "exact_std w = Some s"
  shows "0 \<le> s"
proof -
  from assms have len: "1 < length w"
    and s: "s = sqrt (sum_list (map (\<lambda>x. (x - series_mean w)\<^sup>2) w) / (real (length w) - 1))"
    by (simp_all add: exact_std_def split: if_splits)
  have "0 \<le> sum_list (map (\<lambda>x. (x - series_mean w)\<^sup>2) w)"
    by (rule sum_list_nonneg) auto
  with len show ?thesis
    unfolding s by simp
qed

lemma same_value_window:
  assumes "6 \<le> i" and "\<forall>j. i - 6 \<le> j \<and> j \<le> i \<longrightarrow> xs ! j = c"
  shows "trailing_mean xs i = c" and "trailing_sample_std xs i = 0"
proof -
  have nth: "\<And>j. j \<in> {i - 6..i} \<Longrightarrow> xs ! j = c"
    using assms(2) by simp
  have card: "card {i - 6..i} = 7"
    using assms(1) by simp
  have "(\<Sum>j = i - 6..i. xs ! j) = (\<Sum>j = i - 6..i. c)"
    by (rule sum.cong) (simp_all add: nth)
  also have "\<dots> = 7 * c"
    by (simp only: sum_constant card)
  finally show mean: "trailing_mean xs i = c"
    by (simp add: trailing_mean_def)
  have "(\<Sum>j = i - 6..i. (xs ! j - c)\<^sup>2) = (\<Sum>j = i - 6..i. 0)"
    by (rule sum.cong) (simp_all add: nth)
  then show "trailing_sample_std xs i = 0"
    by (simp add: trailing_sample_std_def mean)
qed

lemma exact_kernels_pandas_rolling: "pandas_rolling exact_rolling_mean exact_rolling_std"
  unfolding pandas_rolling_def
proof (intro allI conjI impI)
  fix xs :: "real list" and i :: nat
  assume "i < 6"
  then show "exact_rolling_mean xs i = None" and "exact_rolling_std xs i = None"
    by (simp_all add: exact_rolling_mean_def exact_rolling_std_def rolling_window_short)
next
  fix xs :: "real list" and i :: nat and s :: real
  assume "exact_rolling_std xs i = Some s"
  then obtain w where "exact_std w = Some s"
    by (auto simp add: exact_rolling_std_def bind_eq_Some_conv)
  then show "0 \<le> s"
    by (rule exact_std_nonneg)
next
  fix xs :: "real list" and i :: nat and c :: real
  assume a: "6 \<le> i \<and> i < length xs \<and> (\<forall>j. i - 6 \<le> j \<and> j \<le> i \<longrightarrow> xs ! j = c)"
  then have full: "6 \<le> i" "i < length xs" and same: "\<forall>j. i - 6 \<le> j \<and> j \<le> i \<longrightarrow> xs ! j = c"
    by simp_all
  show "exact_rolling_mean xs i = Some c"
    by (simp add: exact_rolling_mean_full [OF full] same_value_window(1) [OF full(1) same])
  show "exact_rolling_std xs i = Some 0"
    by (simp add: exact_rolling_std_full [OF full] same_value_window(2) [OF full(1) same])
qed


lemma exact_kernels_within_1: "rolling_within exact_rolling_mean exact_rolling_std 1 xs"
  by (simp add: rolling_within_def exact_rolling_mean_full exact_rolling_std_full)

text \<open>
  What follows holds for any rolling columns that meet \<open>pandas_rolling\<close>: nothing is
  flagged where a column is NaN, a point on an edge of its band is not flagged, and a
  window of one repeated value flags nothing.
\<close>

lemma pandas_rolling_short:
  assumes "pandas_rolling rm rs" and "i < 6"
  shows "rm xs i = None" and "rs xs i = None"
  using assms by (simp_all add: pandas_rolling_def)

lemma pandas_rolling_nonneg:
  assumes "pandas_rolling rm rs" and "rs xs i = Some s"
  shows "0 \<le> s"
  using assms unfolding pandas_rolling_def by blast

lemma pandas_rolling_same_value:
  assumes "pandas_rolling rm rs" and "6 \<le> i" and "i < length xs"
    and "\<forall>j. i - 6 \<le> j \<and> j \<le> i \<longrightarrow> xs ! j = c"
  shows "rm xs i = Some c" and "rs xs i = Some 0"
  using assms unfolding pandas_rolling_def by blast+

lemma is_anomaly_short:
  assumes "pandas_rolling rm rs" and "i < 6"
  shows "\<not> is_anomaly rm rs xs i"
  by (simp add: is_anomaly_def pandas_rolling_short [OF assms])

lemma is_anomaly_iff:
  "is_anomaly rm rs xs i \<longleftrightarrow>
     (\<exists>m s. rm xs i = Some m \<and> rs xs i = Some s \<and>
        (xs ! i > b64 (m + b64 (2 * s)) \<or> xs ! i < b64 (m - b64 (2 * s))))"
  by (auto simp add: is_anomaly_def split: option.splits)



lemma same_value_not_flagged:
  assumes "pandas_rolling rm rs" and "6 \<le> i" and "i < length xs"
    and "\<forall>j. i - 6 \<le> j \<and> j \<le> i \<longrightarrow> xs ! j = c" and "b64 c = c"
  shows "\<not> is_anomaly rm rs xs i"
proof -
  have "xs ! i = c"
    using assms(4) by simp
  then show ?thesis
    by (simp add: is_anomaly_def pandas_rolling_same_value [OF assms(1-4)] b64_zero assms(5))
qed


lemma anomaly_index_iff:
  assumes "7 < length xs"
  shows "i \<in> set (anomaly_index rm rs xs) \<longleftrightarrow>
     i < length xs \<and>
     (\<exists>m s. rm xs i = Some m \<and> rs xs i = Some s \<and>
        (xs ! i > b64 (m + b64 (2 * s)) \<or> xs ! i < b64 (m - b64 (2 * s))))"
  using assms by (auto simp add: anomaly_index_def is_anomaly_iff)

text \<open>
  Ten days at 100 with one day at 1000. The exact standard deviation of a window that
  holds the spike is \<open>sqrt (5670000 / 49)\<close>, between 340 and 341, and its mean is
  \<open>1600 / 7\<close>: the band is so far from 100 and from 1000 that rolling columns within 1
  of the exact ones decide every day the same way.
\<close>

lemma flat_series_explicit:
  "flat_series_with_spike = [100, 100, 100, 100, 100, 100, 100, 1000, 100, 100]"
  by (simp add: flat_series_with_spike_def numeral_eq_Suc)

lemma spike_window_exact:
  "exact_std [100, 100, 100, 100, 100, 100, 1000] = Some (sqrt (5670000 / 49))"
  "exact_std [100, 100, 100, 100, 100, 1000, 100] = Some (sqrt (5670000 / 49))"
  "exact_std [100, 100, 100, 100, 1000, 100, 100] = Some (sqrt (5670000 / 49))"
  "pd_mean [100, 100, 100, 100, 100, 100, 1000] = Some (1600 / 7)"
  "pd_mean [100, 100, 100, 100, 100, 1000, 100] = Some (1600 / 7)"
  "pd_mean [100, 100, 100, 100, 1000, 100, 100] = Some (1600 / 7)"
  by (simp_all add: exact_std_def pd_mean_def series_mean_def power2_eq_square)

lemma flat_series_trailing:
  "trailing_mean flat_series_with_spike 7 = 1600 / 7"
  "trailing_mean flat_series_with_spike 8 = 1600 / 7"
  "trailing_mean flat_series_with_spike 9 = 1600 / 7"
  "trailing_sample_std flat_series_with_spike 7 = sqrt (5670000 / 49)"
  "trailing_sample_std flat_series_with_spike 8 = sqrt (5670000 / 49)"
  "trailing_sample_std flat_series_with_spike 9 = sqrt (5670000 / 49)"
proof -
  have len: "length flat_series_with_spike = 10"
    by (simp add: flat_series_explicit)
  have mean: "exact_rolling_mean flat_series_with_spike 7 = Some (1600 / 7)"
    "exact_rolling_mean flat_series_with_spike 8 = Some (1600 / 7)"
    "exact_rolling_mean flat_series_with_spike 9 = Some (1600 / 7)"
    by (simp_all add: exact_rolling_mean_def rolling_window_def flat_series_explicit
        spike_window_exact)
  have std: "exact_rolling_std flat_series_with_spike 7 = Some (sqrt (5670000 / 49))"
    "exact_rolling_std flat_series_with_spike 8 = Some (sqrt (5670000 / 49))"
    "exact_rolling_std flat_series_with_spike 9 = Some (sqrt (5670000 / 49))"
    by (simp_all add: exact_rolling_std_def rolling_window_def flat_series_explicit
        spike_window_exact)
  show "trailing_mean flat_series_with_spike 7 = 1600 / 7"
    "trailing_mean flat_series_with_spike 8 = 1600 / 7"
    "trailing_mean flat_series_with_spike 9 = 1600 / 7"
    using mean exact_rolling_mean_full [of 7 flat_series_with_spike]
      exact_rolling_mean_full [of 8 flat_series_with_spike]
      exact_rolling_mean_full [of 9 flat_series_with_spike]
    by (simp_all add: len)
  show "trailing_sample_std flat_series_with_spike 7 = sqrt (5670000 / 49)"
    "trailing_sample_std flat_series_with_spike 8 = sqrt (5670000 / 49)"
    "trailing_sample_std flat_series_with_spike 9 = sqrt (5670000 / 49)"
    using std exact_rolling_std_full [of 7 flat_series_with_spike]
      exact_rolling_std_full [of 8 flat_series_with_spike]
      exact_rolling_std_full [of 9 flat_series_with_spike]
    by (simp_all add: len)
qed

lemma spike_std_bounds:
  "sqrt (5670000 / 49) < 341" "340 < sqrt (5670000 / 49)"
  by (rule real_less_lsqrt, simp, simp add: power2_eq_square)
     (rule real_less_rsqrt, simp add: power2_eq_square)

lemma spike_band:
  assumes "0 \<le> s" and "\<bar>m - 1600 / 7\<bar> \<le> 1" and "\<bar>s - sqrt (5670000 / 49)\<bar> \<le> 1"
  shows "b64 (m + b64 (2 * s)) \<le> 914" and "905 \<le> b64 (m + b64 (2 * s))"
    and "b64 (m - b64 (2 * s)) \<le> - 448"
proof -
  have s: "339 \<le> s" "s \<le> 342"
    using assms(3) spike_std_bounds by linarith+
  have m: "227 \<le> m" "m \<le> 230"
    using assms(2) by linarith+
  have "b64 (2 * s) \<le> b64 684"
    using s(2) by (intro b64_mono) simp
  then have hi2: "b64 (2 * s) \<le> 684"
    by (simp add: b64_numeral)
  have "b64 678 \<le> b64 (2 * s)"
    using s(1) by (intro b64_mono) simp
  then have lo2: "678 \<le> b64 (2 * s)"
    by (simp add: b64_numeral)
  have "b64 (m + b64 (2 * s)) \<le> b64 914"
    using m(2) hi2 by (intro b64_mono) simp
  then show "b64 (m + b64 (2 * s)) \<le> 914"
    by (simp add: b64_numeral)
  have "b64 905 \<le> b64 (m + b64 (2 * s))"
    using m(1) lo2 by (intro b64_mono) simp
  then show "905 \<le> b64 (m + b64 (2 * s))"
    by (simp add: b64_numeral)
  have "b64 (m - b64 (2 * s)) \<le> b64 (- 448)"
    using m(2) lo2 by (intro b64_mono) simp
  then show "b64 (m - b64 (2 * s)) \<le> - 448"
    by (simp add: b64_neg_numeral)
qed

lemma flat_series_flags:
  assumes "pandas_rolling rm rs" and "rolling_within rm rs 1 flat_series_with_spike"
  shows "\<not> is_anomaly rm rs flat_series_with_spike 6"
    and "is_anomaly rm rs flat_series_with_spike 7"
    and "\<not> is_anomaly rm rs flat_series_with_spike 8"
    and "\<not> is_anomaly rm rs flat_series_with_spike 9"
proof -
  have len: "length flat_series_with_spike = 10"
    by (simp add: flat_series_explicit)
  have "\<forall>j. 6 - 6 \<le> j \<and> j \<le> 6 \<longrightarrow> flat_series_with_spike ! j = 100"
    by (auto simp add: flat_series_explicit nth_Cons' )
  then show "\<not> is_anomaly rm rs flat_series_with_spike 6"
    by (intro same_value_not_flagged [OF assms(1), of 6 _ 100])
       (simp_all add: len b64_numeral)
  have at: "\<exists>m s. rm flat_series_with_spike i = Some m \<and> rs flat_series_with_spike i = Some s \<and>
        0 \<le> s \<and> \<bar>m - 1600 / 7\<bar> \<le> 1 \<and> \<bar>s - sqrt (5670000 / 49)\<bar> \<le> 1"
    if "i = 7 \<or> i = 8 \<or> i = 9" for i
  proof -
    from that have "6 \<le> i \<and> i < length flat_series_with_spike"
      by (auto simp add: len)
    with assms(2) obtain m s where ms: "rm flat_series_with_spike i = Some m"
      "rs flat_series_with_spike i = Some s"
      "\<bar>m - trailing_mean flat_series_with_spike i\<bar> \<le> 1"
      "\<bar>s - trailing_sample_std flat_series_with_spike i\<bar> \<le> 1"
      unfolding rolling_within_def by blast
    have "0 \<le> s"
      by (rule pandas_rolling_nonneg [OF assms(1) ms(2)])
    with ms that show ?thesis
      by (auto simp add: flat_series_trailing)
  qed
  from at [of 7] obtain m s where ms: "rm flat_series_with_spike 7 = Some m"
    "rs flat_series_with_spike 7 = Some s" "0 \<le> s" "\<bar>m - 1600 / 7\<bar> \<le> 1"
    "\<bar>s - sqrt (5670000 / 49)\<bar> \<le> 1"
    by auto
  have "flat_series_with_spike ! 7 = 1000"
    by (simp add: flat_series_explicit)
  with spike_band(1) [OF ms(3-5)] show "is_anomaly rm rs flat_series_with_spike 7"
    by (simp add: is_anomaly_def ms(1,2))
  from at [of 8] obtain m s where ms: "rm flat_series_with_spike 8 = Some m"
    "rs flat_series_with_spike 8 = Some s" "0 \<le> s" "\<bar>m - 1600 / 7\<bar> \<le> 1"
    "\<bar>s - sqrt (5670000 / 49)\<bar> \<le> 1"
    by auto
  have "flat_series_with_spike ! 8 = 100"
    by (simp add: flat_series_explicit)
  with spike_band(2,3) [OF ms(3-5)] show "\<not> is_anomaly rm rs flat_series_with_spike 8"
    by (simp add: is_anomaly_def ms(1,2))
  from at [of 9] obtain m s where ms: "rm flat_series_with_spike 9 = Some m"
    "rs flat_series_with_spike 9 = Some s" "0 \<le> s" "\<bar>m - 1600 / 7\<bar> \<le> 1"
    "\<bar>s - sqrt (5670000 / 49)\<bar> \<le> 1"
    by auto
  have "flat_series_with_spike ! 9 = 100"
    by (simp add: flat_series_explicit)
  with spike_band(2,3) [OF ms(3-5)] show "\<not> is_anomaly rm rs flat_series_with_spike 9"
    by (simp add: is_anomaly_def ms(1,2))
qed

lemma flat_series_detect:
  assumes "pandas_rolling rm rs" and "rolling_within rm rs 1 flat_series_with_spike"
  shows "anomaly_index rm rs flat_series_with_spike = [7]"
proof -
  have len: "length flat_series_with_spike = 10"
    by (simp add: flat_series_explicit)
  have idx: "[0..<10] = [0, Suc 0, 2, 3, 4, 5, 6, 7, 8, 9]"
    by (simp add: upt_rec)
  have short: "\<not> is_anomaly rm rs flat_series_with_spike 0"
    "\<not> is_anomaly rm rs flat_series_with_spike (Suc 0)"
    "\<not> is_anomaly rm rs flat_series_with_spike 2" "\<not> is_anomaly rm rs flat_series_with_spike 3"
    "\<not> is_anomaly rm rs flat_series_with_spike 4" "\<not> is_anomaly rm rs flat_series_with_spike 5"
    by (rule is_anomaly_short [OF assms(1)]; simp)+
  show ?thesis
    by (simp add: anomaly_index_def len idx short flat_series_flags [OF assms]
        del: upt.simps)
qed

text \<open>
  Rolling columns within \<open>tol\<close> of the textbook figures: rounding is monotone, so the
  computed edges lie between the edges of the band widened and of the band narrowed by
  the error.
\<close>

lemma rolling_within_at:
  assumes "rolling_within rm rs tol xs" and "6 \<le> i" and "i < length xs"
  obtains m s where "rm xs i = Some m" and "rs xs i = Some s"
    and "\<bar>m - trailing_mean xs i\<bar> \<le> tol" and "\<bar>s - trailing_sample_std xs i\<bar> \<le> tol"
  using assms unfolding rolling_within_def by blast

lemma margin_flagged_above:
  assumes "rolling_within rm rs tol xs" and "6 \<le> i" and "i < length xs"
    and "xs ! i > b64 (trailing_mean xs i + tol + b64 (2 * (trailing_sample_std xs i + tol)))"
  shows "is_anomaly rm rs xs i"
proof -
  from assms(1-3) obtain m s where ms: "rm xs i = Some m" "rs xs i = Some s"
    "\<bar>m - trailing_mean xs i\<bar> \<le> tol" "\<bar>s - trailing_sample_std xs i\<bar> \<le> tol"
    by (rule rolling_within_at)
  have "b64 (2 * s) \<le> b64 (2 * (trailing_sample_std xs i + tol))"
    using ms(4) by (intro b64_mono) simp
  then have "b64 (m + b64 (2 * s)) \<le>
      b64 (trailing_mean xs i + tol + b64 (2 * (trailing_sample_std xs i + tol)))"
    using ms(3) by (intro b64_mono) simp
  with assms(4) have "xs ! i > b64 (m + b64 (2 * s))"
    by simp
  then show ?thesis
    by (simp add: is_anomaly_def ms(1,2))
qed

lemma margin_flagged_below:
  assumes "rolling_within rm rs tol xs" and "6 \<le> i" and "i < length xs"
    and "xs ! i < b64 (trailing_mean xs i - tol - b64 (2 * (trailing_sample_std xs i + tol)))"
  shows "is_anomaly rm rs xs i"
proof -
  from assms(1-3) obtain m s where ms: "rm xs i = Some m" "rs xs i = Some s"
    "\<bar>m - trailing_mean xs i\<bar> \<le> tol" "\<bar>s - trailing_sample_std xs i\<bar> \<le> tol"
    by (rule rolling_within_at)
  have "b64 (2 * s) \<le> b64 (2 * (trailing_sample_std xs i + tol))"
    using ms(4) by (intro b64_mono) simp
  then have "b64 (trailing_mean xs i - tol - b64 (2 * (trailing_sample_std xs i + tol))) \<le>
      b64 (m - b64 (2 * s))"
    using ms(3) by (intro b64_mono) simp
  with assms(4) have "xs ! i < b64 (m - b64 (2 * s))"
    by simp
  then show ?thesis
    by (simp add: is_anomaly_def ms(1,2))
qed

lemma margin_not_flagged:
  assumes "rolling_within rm rs tol xs" and "6 \<le> i" and "i < length xs"
    and "b64 (trailing_mean xs i + tol - b64 (2 * (trailing_sample_std xs i - tol))) \<le> xs ! i"
    and "xs ! i \<le> b64 (trailing_mean xs i - tol + b64 (2 * (trailing_sample_std xs i - tol)))"
  shows "\<not> is_anomaly rm rs xs i"
proof -
  from assms(1-3) obtain m s where ms: "rm xs i = Some m" "rs xs i = Some s"
    "\<bar>m - trailing_mean xs i\<bar> \<le> tol" "\<bar>s - trailing_sample_std xs i\<bar> \<le> tol"
    by (rule rolling_within_at)
  have two: "b64 (2 * (trailing_sample_std xs i - tol)) \<le> b64 (2 * s)"
    using ms(4) by (intro b64_mono) simp
  then have "b64 (trailing_mean xs i - tol + b64 (2 * (trailing_sample_std xs i - tol))) \<le>
      b64 (m + b64 (2 * s))"
    using ms(3) by (intro b64_mono) simp
  with assms(5) have hi: "xs ! i \<le> b64 (m + b64 (2 * s))"
    by simp
  from two have "b64 (m - b64 (2 * s)) \<le>
      b64 (trailing_mean xs i + tol - b64 (2 * (trailing_sample_std xs i - tol)))"
    using ms(3) by (intro b64_mono) simp
  with assms(4) have lo: "b64 (m - b64 (2 * s)) \<le> xs ! i"
    by simp
  from hi lo show ?thesis
    by (simp add: is_anomaly_def ms(1,2))
qed

lemma spike_margins:
  "b64 (trailing_mean flat_series_with_spike 7 + 1 +
        b64 (2 * (trailing_sample_std flat_series_with_spike 7 + 1))) < flat_series_with_spike ! 7"
  "b64 (trailing_mean flat_series_with_spike 8 + 1 -
        b64 (2 * (trailing_sample_std flat_series_with_spike 8 - 1))) \<le> flat_series_with_spike ! 8"
  "flat_series_with_spike ! 8 \<le>
     b64 (trailing_mean flat_series_with_spike 8 - 1 +
          b64 (2 * (trailing_sample_std flat_series_with_spike 8 - 1)))"
proof -
  let ?T = "1600 / 7 :: real" and ?S = "sqrt (5670000 / 49)"
  have pos: "0 \<le> ?S + 1" "0 \<le> ?S - 1"
    using spike_std_bounds by linarith+
  have a: "b64 (?T + 1 + b64 (2 * (?S + 1))) \<le> 914"
    by (rule spike_band(1) [OF pos(1)]) simp_all
  have b: "b64 (?T + 1 - b64 (2 * (?S - 1))) \<le> - 448"
    by (rule spike_band(3) [OF pos(2)]) simp_all
  have c: "905 \<le> b64 (?T - 1 + b64 (2 * (?S - 1)))"
    by (rule spike_band(2) [OF pos(2)]) simp_all
  have at: "flat_series_with_spike ! 7 = 1000" "flat_series_with_spike ! 8 = 100"
    by (simp_all add: flat_series_explicit)
  show "b64 (trailing_mean flat_series_with_spike 7 + 1 +
        b64 (2 * (trailing_sample_std flat_series_with_spike 7 + 1))) < flat_series_with_spike ! 7"
    using a by (simp only: flat_series_trailing at)
  show "b64 (trailing_mean flat_series_with_spike 8 + 1 -
        b64 (2 * (trailing_sample_std flat_series_with_spike 8 - 1))) \<le> flat_series_with_spike ! 8"
    using b by (simp only: flat_series_trailing at)
  show "flat_series_with_spike ! 8 \<le>
     b64 (trailing_mean flat_series_with_spike 8 - 1 +
          b64 (2 * (trailing_sample_std flat_series_with_spike 8 - 1)))"
    using c by (simp only: flat_series_trailing at)
qed

lemma march_2023: "ymd2ord 2023 3 d = 738579 + d"
  by (simp add: ymd2ord_def days_before_year_def days_before_month_def days_in_month_def
      is_leap_def upto.simps)

lemma view_ten_days_keys:
  "groupby_keys created_date view_ten_days =
     [738580, 738581, 738582, 738583, 738584, 738585, 738586, 738587, 738588, 738589]"
  by (simp add: groupby_keys_def view_ten_days_def fixture_row_def march_2023)

lemma view_ten_days_daily:
  "map day (daily_trend view_ten_days) =
     [738580, 738581, 738582, 738583, 738584, 738585, 738586, 738587, 738588, 738589]"
  "map day_purchase_value (daily_trend view_ten_days) = flat_series_with_spike"
  unfolding daily_trend_def view_ten_days_keys flat_series_explicit
  by (simp_all add: group_rows_def view_ten_days_def fixture_row_def march_2023 Let_def)

lemma view_ten_days_anomalies:
  assumes "pandas_rolling rm rs" and "rolling_within rm rs 1 flat_series_with_spike"
  shows "map day (anomalies rm rs view_ten_days) = [ymd2ord 2023 3 8]"
proof -
  have "length (map day (daily_trend view_ten_days)) = 10"
    by (simp only: view_ten_days_daily(1)) simp
  then have len: "7 < length (daily_trend view_ten_days)"
    by simp
  have "day (daily_trend view_ten_days ! 7) = map day (daily_trend view_ten_days) ! 7"
    by (rule nth_map [OF len, symmetric])
  also have "\<dots> = 738587"
    by (simp only: view_ten_days_daily(1)) simp
  finally have day8: "day (daily_trend view_ten_days ! 7) = ymd2ord 2023 3 8"
    by (simp add: march_2023)
  show ?thesis
    by (simp add: anomalies_def Let_def view_ten_days_daily(2) flat_series_detect [OF assms] day8)
qed

text \<open>
  C5. With window 7 and factor 2 the detector flags exactly the points that lie outside
  the band from the rolling mean minus twice the rolling standard deviation to the
  rolling mean plus twice it, where the two rolling figures are the columns that pandas
  computed for the 7 points that end at the point itself and the two edges are formed in
  float64, as the program forms them. Measured against the textbook mean and sample
  standard deviation of those 7 points: when the rolling columns are within \<open>tol\<close> of
  them, a point beyond the band widened by that error is flagged and a point within the
  band narrowed by it is not. The first 6 points of a series are never flagged; a series
  of fewer than 8 points yields nothing; and on ten days at 100 with 1000 on the eighth
  day, the eighth day (index 7) and no other is flagged, whatever the last digits of the
  rolling columns (they may be off the exact figures by as much as 1). The flagged rows
  of the daily table are the rows at the flagged indices of its revenue column: on the
  ten-day view the one flagged row is 2023-03-08.
\<close>

theorem C5_anomaly_detector:
  assumes "pandas_rolling rm rs"
  shows "(length xs \<le> 7 \<longrightarrow> anomaly_index rm rs xs = []) \<and>
   (7 < length xs \<longrightarrow>
      (i \<in> set (anomaly_index rm rs xs) \<longleftrightarrow>
         i < length xs \<and>
         (\<exists>m s. rm xs i = Some m \<and> rs xs i = Some s \<and>
            (xs ! i > b64 (m + b64 (2 * s)) \<or> xs ! i < b64 (m - b64 (2 * s)))))) \<and>
   (i < 6 \<longrightarrow> i \<notin> set (anomaly_index rm rs xs)) \<and>
   (rolling_within rm rs tol xs \<and> 7 < length xs \<and> 6 \<le> i \<and> i < length xs \<longrightarrow>
      (b64 (trailing_mean xs i + tol + b64 (2 * (trailing_sample_std xs i + tol))) < xs ! i \<longrightarrow>
         i \<in> set (anomaly_index rm rs xs)) \<and>
      (xs ! i < b64 (trailing_mean xs i - tol - b64 (2 * (trailing_sample_std xs i + tol))) \<longrightarrow>
         i \<in> set (anomaly_index rm rs xs)) \<and>
      (b64 (trailing_mean xs i + tol - b64 (2 * (trailing_sample_std xs i - tol))) \<le> xs ! i \<and>
       xs ! i \<le> b64 (trailing_mean xs i - tol + b64 (2 * (trailing_sample_std xs i - tol))) \<longrightarrow>
         i \<notin> set (anomaly_index rm rs xs))) \<and>
   (rolling_within rm rs 1 flat_series_with_spike \<longrightarrow>
      anomaly_index rm rs flat_series_with_spike = [7]) \<and>
   anomalies rm rs fd =
     map (\<lambda>i. daily_trend fd ! i)
       (anomaly_index rm rs (map day_purchase_value (daily_trend fd))) \<and>
   (rolling_within rm rs 1 flat_series_with_spike \<longrightarrow>
      map day (anomalies rm rs view_ten_days) = [ymd2ord 2023 3 8])"
proof -
  have short_series: "length xs \<le> 7 \<longrightarrow> anomaly_index rm rs xs = []"
    by (simp add: anomaly_index_def)
  have exact: "7 < length xs \<longrightarrow>
      (i \<in> set (anomaly_index rm rs xs) \<longleftrightarrow>
         i < length xs \<and>
         (\<exists>m s. rm xs i = Some m \<and> rs xs i = Some s \<and>
            (xs ! i > b64 (m + b64 (2 * s)) \<or> xs ! i < b64 (m - b64 (2 * s)))))"
    using anomaly_index_iff [of xs i rm rs] by blast
  have early: "i < 6 \<longrightarrow> i \<notin> set (anomaly_index rm rs xs)"
    using is_anomaly_short [OF assms] by (simp add: anomaly_index_def)
  have margin: "rolling_within rm rs tol xs \<and> 7 < length xs \<and> 6 \<le> i \<and> i < length xs \<longrightarrow>
      (b64 (trailing_mean xs i + tol + b64 (2 * (trailing_sample_std xs i + tol))) < xs ! i \<longrightarrow>
         i \<in> set (anomaly_index rm rs xs)) \<and>
      (xs ! i < b64 (trailing_mean xs i - tol - b64 (2 * (trailing_sample_std xs i + tol))) \<longrightarrow>
         i \<in> set (anomaly_index rm rs xs)) \<and>
      (b64 (trailing_mean xs i + tol - b64 (2 * (trailing_sample_std xs i - tol))) \<le> xs ! i \<and>
       xs ! i \<le> b64 (trailing_mean xs i - tol + b64 (2 * (trailing_sample_std xs i - tol))) \<longrightarrow>
         i \<notin> set (anomaly_index rm rs xs))"
    using margin_flagged_above [of rm rs tol xs i] margin_flagged_below [of rm rs tol xs i]
      margin_not_flagged [of rm rs tol xs i]
    by (auto simp add: anomaly_index_def)
  have spike: "rolling_within rm rs 1 flat_series_with_spike \<longrightarrow>
      anomaly_index rm rs flat_series_with_spike = [7]"
    using flat_series_detect [OF assms] by blast
  have rows: "anomalies rm rs fd =
     map (\<lambda>i. daily_trend fd ! i)
       (anomaly_index rm rs (map day_purchase_value (daily_trend fd)))"
    by (simp add: anomalies_def Let_def)
  have days: "rolling_within rm rs 1 flat_series_with_spike \<longrightarrow>
      map day (anomalies rm rs view_ten_days) = [ymd2ord 2023 3 8]"
    using view_ten_days_anomalies [OF assms] by blast
  show ?thesis
    by (intro conjI short_series exact early margin spike rows days)
qed

theorem C5_anomaly_detector_witness:
  "pandas_rolling exact_rolling_mean exact_rolling_std \<and>
   rolling_within exact_rolling_mean exact_rolling_std 1 flat_series_with_spike \<and>
   7 < length flat_series_with_spike \<and>
   anomaly_index exact_rolling_mean exact_rolling_std flat_series_with_spike = [7] \<and>
   (5::nat) < 6 \<and>
   5 \<notin> set (anomaly_index exact_rolling_mean exact_rolling_std flat_series_with_spike) \<and>
   b64 (trailing_mean flat_series_with_spike 7 + 1 +
        b64 (2 * (trailing_sample_std flat_series_with_spike 7 + 1))) < flat_series_with_spike ! 7 \<and>
   7 \<in> set (anomaly_index exact_rolling_mean exact_rolling_std flat_series_with_spike) \<and>
   b64 (trailing_mean flat_series_with_spike 8 + 1 -
        b64 (2 * (trailing_sample_std flat_series_with_spike 8 - 1))) \<le> flat_series_with_spike ! 8 \<and>
   flat_series_with_spike ! 8 \<le>
     b64 (trailing_mean flat_series_with_spike 8 - 1 +
          b64 (2 * (trailing_sample_std flat_series_with_spike 8 - 1))) \<and>
   8 \<notin> set (anomaly_index exact_rolling_mean exact_rolling_std flat_series_with_spike) \<and>
   length [100, 100, 100, 100, 100, 100, 1000 :: real] \<le> 7 \<and>
   anomaly_index exact_rolling_mean exact_rolling_std [100, 100, 100, 100, 100, 100, 1000] = [] \<and>
   map day (anomalies exact_rolling_mean exact_rolling_std view_ten_days) = [ymd2ord 2023 3 8]"
proof -
  note k = exact_kernels_pandas_rolling
  have w: "rolling_within exact_rolling_mean exact_rolling_std 1 flat_series_with_spike"
    by (rule exact_kernels_within_1)
  have len: "7 < length flat_series_with_spike"
    by (simp add: flat_series_explicit)
  have len10: "length flat_series_with_spike = 10"
    by (simp add: flat_series_explicit)
  note at5 = C5_anomaly_detector [OF k, of flat_series_with_spike 5 1 view_ten_days]
  note at7 = C5_anomaly_detector [OF k, of flat_series_with_spike 7 1 view_ten_days]
  note at8 = C5_anomaly_detector [OF k, of flat_series_with_spike 8 1 view_ten_days]
  note short = C5_anomaly_detector [OF k, of "[100, 100, 100, 100, 100, 100, 1000]" 0 1 view_ten_days]
  from at7 [THEN conjunct2, THEN conjunct2, THEN conjunct2, THEN conjunct1] w spike_margins(1)
  have in7: "7 \<in> set (anomaly_index exact_rolling_mean exact_rolling_std flat_series_with_spike)"
    by (simp add: len10)
  from at8 [THEN conjunct2, THEN conjunct2, THEN conjunct2, THEN conjunct1] w spike_margins(2,3)
  have out8: "8 \<notin> set (anomaly_index exact_rolling_mean exact_rolling_std flat_series_with_spike)"
    by (simp add: len10)
  from at5 w have spike: "anomaly_index exact_rolling_mean exact_rolling_std flat_series_with_spike = [7]"
    by blast
  from at5 have early: "5 \<notin> set (anomaly_index exact_rolling_mean exact_rolling_std flat_series_with_spike)"
    by simp
  from short have none:
    "anomaly_index exact_rolling_mean exact_rolling_std [100, 100, 100, 100, 100, 100, 1000] = []"
    by simp
  from at5 w have days:
    "map day (anomalies exact_rolling_mean exact_rolling_std view_ten_days) = [ymd2ord 2023 3 8]"
    by blast
  show ?thesis
    using k w len spike early none days in7 out8 spike_margins by simp
qed





end
